theory Spec2Isabelle
  imports Main "HOL-Library.AList" "HOL-Library.Sublist"
begin

section \<open>Exceptions and Python values\<close>

text \<open>
  The exceptions that the adapter code can see.  \<open>ClientError\<close> is
  \<^verbatim>\<open>botocore.exceptions.ClientError\<close> (with its error code), the only class named
  in an \<^verbatim>\<open>except\<close> clause of the adapters.  \<open>ValueError\<close> is raised by the consumer
  loop itself, \<open>UnboundLocalError\<close> by Python when a local variable is read before
  any assignment to it; \<open>OtherError\<close> stands for every other exception class that a
  collaborator may raise.
\<close>

datatype exn =
    ClientError string
  | ValueError string
  | UnboundLocalError string
  | OtherError string

text \<open>
  Values of a message attribute dictionary.  The adapters store the object returned by
  \<^verbatim>\<open>uuid.uuid4()\<close> itself (not its string form) under \<^verbatim>\<open>redis_key\<close>, so UUID objects are
  a separate case.  A Python \<^verbatim>\<open>dict\<close> is an association list with unique keys:
  \<^verbatim>\<open>d[k] = v\<close> replaces the value in place or appends the pair, which is \<open>AList.update\<close>.
\<close>

datatype pyval = PyStr string | PyBytes string | PyUUID string | PyOther string

type_synonym attrs = "(string \<times> pyval) list"

section \<open>Codec (src/pubsublib/common/codec.py)\<close>

text \<open>
  \<^verbatim>\<open>base64.b64decode\<close> and reading a \<^verbatim>\<open>gzip.GzipFile\<close> belong to the Python standard
  library; they are parameters of the model.  Both can raise.  Every call of the two
  library functions is recorded, so that "is never invoked" can be stated.
\<close>

record codec_lib =
  b64decode :: "string \<Rightarrow> exn + string"
  gzip_read :: "string \<Rightarrow> exn + string"

datatype codec_call = B64Decode string | GzipRead string

definition gzip_decompress :: "codec_lib \<Rightarrow> string \<Rightarrow> (exn + string) \<times> codec_call list" where
  "gzip_decompress lib data = (gzip_read lib data, [GzipRead data])"

definition b64_decode :: "codec_lib \<Rightarrow> string \<Rightarrow> (exn + string) \<times> codec_call list" where
  "b64_decode lib s = (b64decode lib s, [B64Decode s])"

definition b64_decode_and_gunzip_if ::
  "codec_lib \<Rightarrow> string \<Rightarrow> bool \<Rightarrow> (exn + string) \<times> codec_call list" where
  "b64_decode_and_gunzip_if lib b64s compressed =
     (case b64_decode lib b64s of
        (Inl e, calls) \<Rightarrow> (Inl e, calls)
      | (Inr decoded, calls) \<Rightarrow>
          if compressed
          then (case gzip_decompress lib decoded of (r, calls') \<Rightarrow> (r, calls @ calls'))
          else (Inr decoded, calls))"

fun is_gzip_call :: "codec_call \<Rightarrow> bool" where
  "is_gzip_call (GzipRead d) = True"
| "is_gzip_call (B64Decode s) = False"

section \<open>Transport, cache and helper interfaces\<close>

text \<open>
  A request to \<^verbatim>\<open>sns_client.publish\<close>.  The standard path passes \<^verbatim>\<open>TopicArn\<close>,
  \<^verbatim>\<open>Message\<close> and \<^verbatim>\<open>MessageAttributes\<close>; the FIFO path passes \<^verbatim>\<open>MessageGroupId\<close> and
  \<^verbatim>\<open>MessageDeduplicationId\<close> as well, whatever the caller gave (\<open>None\<close> is Python's
  \<^verbatim>\<open>None\<close>, the default of both parameters of \<^verbatim>\<open>publish_message\<close>).
\<close>

type_synonym wire_attrs = "(string \<times> string \<times> pyval) list"

datatype publish_request =
    Publish string string wire_attrs
  | PublishFifo string string "string option" "string option" wire_attrs

record publish_response =
  MessageId :: string

record sqs_message =
  ReceiptHandle :: string
  MD5OfBody :: string
  Body :: string

record receive_request =
  QueueUrl :: string
  MaxNumberOfMessages :: int
  VisibilityTimeout :: int
  WaitTimeSeconds :: int
  MessageAttributeNames :: "string list"
  AttributeNames :: "string list"

text \<open>The key \<^verbatim>\<open>'Messages'\<close> of a receive response may be absent.\<close>

record receive_response =
  Messages :: "sqs_message list option"
  ResponseMetadata :: string

text \<open>
  The collaborators of the adapter.  The four helpers of \<^verbatim>\<open>aws/utils/helper.py\<close> and
  the cache adapter are imported by the adapters but are not part of the sources at
  hand, and the SNS and SQS clients are boto3's: all of them are parameters.  The
  external services act on a world state \<open>'w\<close> of their own; the helpers are
  functions of their arguments.
\<close>

record 'w env =
  is_large_message :: "string \<Rightarrow> bool"
  validate_message_attributes :: "attrs \<Rightarrow> exn + bool"
  bind_attributes :: "attrs \<Rightarrow> wire_attrs"
  is_message_integrity_verified :: "string \<Rightarrow> string \<Rightarrow> bool"
  uuid4 :: "'w \<Rightarrow> string \<times> 'w"
  cache_set :: "string \<Rightarrow> string \<Rightarrow> int \<Rightarrow> 'w \<Rightarrow> exn option \<times> 'w"
  sns_publish :: "publish_request \<Rightarrow> 'w \<Rightarrow> (exn + publish_response) \<times> 'w"
  sqs_receive_message :: "receive_request \<Rightarrow> 'w \<Rightarrow> (exn + receive_response) \<times> 'w"
  sqs_delete_message :: "string \<Rightarrow> string \<Rightarrow> 'w \<Rightarrow> exn option \<times> 'w"

text \<open>
  Every call that leaves the adapter is recorded in a trace, in the order of the calls.
  \<open>Handler m r\<close> is a call of the caller's handler on \<open>m\<close> with its outcome: an
  exception, or the truth value of what it returned.
\<close>

datatype event =
    Uuid4Call string
  | CacheSet string string int
  | Validate attrs
  | Bind attrs
  | SnsPublish publish_request
  | SqsReceive receive_request
  | Handler sqs_message "exn + bool"
  | SqsDelete string string
  | LogException string
  | PrintLine string

type_synonym 'w st = "'w \<times> event list"

text \<open>
  Modelled from the spec: the helper \<^verbatim>\<open>is_large_message\<close> of \<^verbatim>\<open>aws/utils/helper.py\<close>
  is missing from the sources.  The spec (4.3) says it is true when the serialized body
  size exceeds 200 KB; a body is a byte string here and 200 KB is 200 * 1024 bytes.
\<close>

definition is_large_message_spec :: "string \<Rightarrow> bool" where
  "is_large_message_spec body = (length body > 200 * 1024)"

section \<open>Publisher (src/pubsublib/aws/main.py)\<close>

text \<open>
  The first statement of every publish function, the same text in all four of them:
  when the helper says the message is large, a key is drawn, stored in the caller's
  dictionary under \<^verbatim>\<open>redis_key\<close>, and the message is stored in the cache for
  \<^verbatim>\<open>10*24*60\<close> minutes.  The dictionary is updated before the cache is written, so the
  update stays when the cache raises.  The result is the exception of the cache call
  (if any), the dictionary and the new state.
\<close>

definition offload_if_large ::
  "'w env \<Rightarrow> string \<Rightarrow> attrs \<Rightarrow> 'w st \<Rightarrow> exn option \<times> attrs \<times> 'w st" where
  "offload_if_large env message attributes st =
     (if is_large_message env message then
        (case st of (w, tr) \<Rightarrow>
          (case uuid4 env w of (redis_key, w1) \<Rightarrow>
            (case cache_set env redis_key message (10 * 24 * 60) w1 of (r, w2) \<Rightarrow>
              (r, AList.update ''redis_key'' (PyUUID redis_key) attributes,
               (w2, tr @ [Uuid4Call redis_key, CacheSet redis_key message (10 * 24 * 60)])))))
      else (None, attributes, st))"

text \<open>
  The body of the \<^verbatim>\<open>try\<close> statement of \<^verbatim>\<open>__publish_message_standard_queue\<close>.  Its
  value is the exception that left the body, or the local variable \<^verbatim>\<open>message_id\<close>
  at its end: \<open>None\<close> when it was never assigned (validation returned a false value).
\<close>

definition publish_standard_try ::
  "'w env \<Rightarrow> string \<Rightarrow> string \<Rightarrow> attrs \<Rightarrow> 'w st \<Rightarrow> (exn + string option) \<times> attrs \<times> 'w st" where
  "publish_standard_try env topic_arn message attributes st =
     (case offload_if_large env message attributes st of
        (Some e, attributes1, st1) \<Rightarrow> (Inl e, attributes1, st1)
      | (None, attributes1, (w1, tr1)) \<Rightarrow>
          (case validate_message_attributes env attributes1 of
             Inl e \<Rightarrow> (Inl e, attributes1, (w1, tr1 @ [Validate attributes1]))
           | Inr ok \<Rightarrow>
               if ok then
                 (case sns_publish env
                         (Publish topic_arn message (bind_attributes env attributes1)) w1 of
                    (r, w2) \<Rightarrow>
                      (case r of
                         Inl e \<Rightarrow> Inl e
                       | Inr response \<Rightarrow> Inr (Some (MessageId response)),
                       attributes1,
                       (w2, tr1 @ [Validate attributes1, Bind attributes1,
                          SnsPublish (Publish topic_arn message
                            (bind_attributes env attributes1))])))
               else (Inr None, attributes1, (w1, tr1 @ [Validate attributes1]))))"

text \<open>
  The \<^verbatim>\<open>except ClientError\<close> clause logs and returns \<^verbatim>\<open>None\<close>; any other exception
  propagates; the \<^verbatim>\<open>else\<close> clause returns \<^verbatim>\<open>message_id\<close>, which raises
  \<^verbatim>\<open>UnboundLocalError\<close> when the variable was never assigned.  The value returned is
  \<open>Some id\<close> or Python's \<^verbatim>\<open>None\<close>.
\<close>

definition publish_message_standard_queue ::
  "'w env \<Rightarrow> string \<Rightarrow> string \<Rightarrow> attrs \<Rightarrow> 'w st \<Rightarrow> (exn + string option) \<times> attrs \<times> 'w st" where
  "publish_message_standard_queue env topic_arn message attributes st =
     (case publish_standard_try env topic_arn message attributes st of
        (Inl (ClientError c), attributes1, (w1, tr1)) \<Rightarrow>
          (Inr None, attributes1,
           (w1, tr1 @ [LogException (''Couldn't publish message to topic '' @ topic_arn @ ''.'')]))
      | (Inl e, attributes1, st1) \<Rightarrow> (Inl e, attributes1, st1)
      | (Inr None, attributes1, st1) \<Rightarrow> (Inl (UnboundLocalError ''message_id''), attributes1, st1)
      | (Inr (Some message_id), attributes1, st1) \<Rightarrow> (Inr (Some message_id), attributes1, st1))"

definition publish_fifo_try ::
  "'w env \<Rightarrow> string \<Rightarrow> string \<Rightarrow> string option \<Rightarrow> string option \<Rightarrow> attrs \<Rightarrow> 'w st
     \<Rightarrow> (exn + string option) \<times> attrs \<times> 'w st" where
  "publish_fifo_try env topic_arn message message_group_id message_deduplication_id attributes st =
     (case offload_if_large env message attributes st of
        (Some e, attributes1, st1) \<Rightarrow> (Inl e, attributes1, st1)
      | (None, attributes1, (w1, tr1)) \<Rightarrow>
          (case validate_message_attributes env attributes1 of
             Inl e \<Rightarrow> (Inl e, attributes1, (w1, tr1 @ [Validate attributes1]))
           | Inr ok \<Rightarrow>
               if ok then
                 (case sns_publish env
                         (PublishFifo topic_arn message message_group_id
                            message_deduplication_id (bind_attributes env attributes1)) w1 of
                    (r, w2) \<Rightarrow>
                      (case r of
                         Inl e \<Rightarrow> Inl e
                       | Inr response \<Rightarrow> Inr (Some (MessageId response)),
                       attributes1,
                       (w2, tr1 @ [Validate attributes1, Bind attributes1,
                          SnsPublish (PublishFifo topic_arn message message_group_id
                            message_deduplication_id (bind_attributes env attributes1))])))
               else (Inr None, attributes1, (w1, tr1 @ [Validate attributes1]))))"

text \<open>
  The FIFO function has no \<^verbatim>\<open>return\<close> in its \<^verbatim>\<open>except\<close> clause: after logging, control
  falls off the end of the function, which returns \<^verbatim>\<open>None\<close> as well.
\<close>

definition publish_message_fifo_queue ::
  "'w env \<Rightarrow> string \<Rightarrow> string \<Rightarrow> string option \<Rightarrow> string option \<Rightarrow> attrs \<Rightarrow> 'w st
     \<Rightarrow> (exn + string option) \<times> attrs \<times> 'w st" where
  "publish_message_fifo_queue env topic_arn message message_group_id message_deduplication_id
       attributes st =
     (case publish_fifo_try env topic_arn message message_group_id message_deduplication_id
             attributes st of
        (Inl (ClientError c), attributes1, (w1, tr1)) \<Rightarrow>
          (Inr None, attributes1,
           (w1, tr1 @ [LogException
              (''Couldn't publish message to FIFO topic '' @ topic_arn @ ''.'')]))
      | (Inl e, attributes1, st1) \<Rightarrow> (Inl e, attributes1, st1)
      | (Inr None, attributes1, st1) \<Rightarrow> (Inl (UnboundLocalError ''message_id''), attributes1, st1)
      | (Inr (Some message_id), attributes1, st1) \<Rightarrow> (Inr (Some message_id), attributes1, st1))"

definition publish_message ::
  "'w env \<Rightarrow> string \<Rightarrow> string \<Rightarrow> attrs \<Rightarrow> bool \<Rightarrow> string option \<Rightarrow> string option \<Rightarrow> 'w st
     \<Rightarrow> (exn + string option) \<times> attrs \<times> 'w st" where
  "publish_message env topic_arn message attributes is_fifo message_group_id
       message_deduplication_id st =
     (if is_fifo
      then publish_message_fifo_queue env topic_arn message message_group_id
             message_deduplication_id attributes st
      else publish_message_standard_queue env topic_arn message attributes st)"

section \<open>Publisher (src/pubsublib_python_orangehealth/aws/main.py)\<close>

text \<open>
  The older adapter calls \<^verbatim>\<open>validate_message_attributes(message_attributes)\<close>, where
  \<^verbatim>\<open>message_attributes\<close> is a local variable that is assigned only on the next line:
  evaluating the argument raises \<^verbatim>\<open>UnboundLocalError\<close>, before the helper is called.
  Nothing after it in the \<^verbatim>\<open>try\<close> body is reachable, in either publish function.
\<close>

definition publish_orangehealth_try ::
  "'w env \<Rightarrow> string \<Rightarrow> attrs \<Rightarrow> 'w st \<Rightarrow> (exn + string option) \<times> attrs \<times> 'w st" where
  "publish_orangehealth_try env message attributes st =
     (case offload_if_large env message attributes st of
        (Some e, attributes1, st1) \<Rightarrow> (Inl e, attributes1, st1)
      | (None, attributes1, st1) \<Rightarrow>
          (Inl (UnboundLocalError ''message_attributes''), attributes1, st1))"

definition publish_message_orangehealth ::
  "'w env \<Rightarrow> string \<Rightarrow> string \<Rightarrow> attrs \<Rightarrow> 'w st \<Rightarrow> (exn + string option) \<times> attrs \<times> 'w st" where
  "publish_message_orangehealth env topic_arn message attributes st =
     (case publish_orangehealth_try env message attributes st of
        (Inl (ClientError c), attributes1, (w1, tr1)) \<Rightarrow>
          (Inr None, attributes1,
           (w1, tr1 @ [LogException (''Couldn't publish message to topic '' @ topic_arn @ ''.'')]))
      | (Inl e, attributes1, st1) \<Rightarrow> (Inl e, attributes1, st1)
      | (Inr None, attributes1, st1) \<Rightarrow> (Inl (UnboundLocalError ''message_id''), attributes1, st1)
      | (Inr (Some message_id), attributes1, st1) \<Rightarrow> (Inr (Some message_id), attributes1, st1))"

definition publish_message_fifo_orangehealth ::
  "'w env \<Rightarrow> string \<Rightarrow> string \<Rightarrow> string option \<Rightarrow> string option \<Rightarrow> attrs \<Rightarrow> 'w st
     \<Rightarrow> (exn + string option) \<times> attrs \<times> 'w st" where
  "publish_message_fifo_orangehealth env topic_arn message message_group_id
       message_deduplication_id attributes st =
     (case publish_orangehealth_try env message attributes st of
        (Inl (ClientError c), attributes1, (w1, tr1)) \<Rightarrow>
          (Inr None, attributes1,
           (w1, tr1 @ [LogException
              (''Couldn't publish message to FIFO topic '' @ topic_arn @ ''.'')]))
      | (Inl e, attributes1, st1) \<Rightarrow> (Inl e, attributes1, st1)
      | (Inr None, attributes1, st1) \<Rightarrow> (Inl (UnboundLocalError ''message_id''), attributes1, st1)
      | (Inr (Some message_id), attributes1, st1) \<Rightarrow> (Inr (Some message_id), attributes1, st1))"

section \<open>Consumer loop (src/pubsublib/aws/main.py)\<close>

text \<open>
  The \<^verbatim>\<open>for\<close> loop over \<^verbatim>\<open>recieved_message['Messages']\<close>.  The result is the exception
  that left the loop, if any.  The handler is the caller's: it acts on the world and
  returns a value whose truth value decides the deletion, or raises.
\<close>

type_synonym 'w handler = "sqs_message \<Rightarrow> 'w \<Rightarrow> (exn + bool) \<times> 'w"

fun process_messages ::
  "'w env \<Rightarrow> string \<Rightarrow> 'w handler \<Rightarrow> sqs_message list \<Rightarrow> 'w st \<Rightarrow> exn option \<times> 'w st" where
  "process_messages env sqs_queue_url handler [] st = (None, st)"
| "process_messages env sqs_queue_url handler (message # rest) (w, tr) =
     (if \<not> is_message_integrity_verified env (Body message) (MD5OfBody message)
      then (Some (ValueError ''message corrupted, Message integrity verification failed!''),
            (w, tr))
      else
        (case handler message w of
           (Inl e, w1) \<Rightarrow> (Some e, (w1, tr @ [Handler message (Inl e)]))
         | (Inr processing_result, w1) \<Rightarrow>
             if processing_result then
               (case sqs_delete_message env sqs_queue_url (ReceiptHandle message) w1 of
                  (Some e, w2) \<Rightarrow>
                    (Some e, (w2, tr @ [Handler message (Inr True),
                                        SqsDelete sqs_queue_url (ReceiptHandle message)]))
                | (None, w2) \<Rightarrow>
                    process_messages env sqs_queue_url handler rest
                      (w2, tr @ [Handler message (Inr True),
                                 SqsDelete sqs_queue_url (ReceiptHandle message)]))
             else process_messages env sqs_queue_url handler rest
                    (w1, tr @ [Handler message (Inr False)])))"

text \<open>The body of the \<^verbatim>\<open>try\<close> statement of \<^verbatim>\<open>poll_message_from_queue\<close>.\<close>

definition poll_try ::
  "'w env \<Rightarrow> string \<Rightarrow> 'w handler \<Rightarrow> int \<Rightarrow> int \<Rightarrow> string list \<Rightarrow> int \<Rightarrow> string list \<Rightarrow> 'w st
     \<Rightarrow> (exn + receive_response) \<times> 'w st" where
  "poll_try env sqs_queue_url handler visibility_timeout wait_time_seconds
       message_attribute_names max_number_of_messages attribute_names st =
     (case st of (w, tr) \<Rightarrow>
       (case sqs_receive_message env
               \<lparr>QueueUrl = sqs_queue_url, MaxNumberOfMessages = max_number_of_messages,
                VisibilityTimeout = visibility_timeout, WaitTimeSeconds = wait_time_seconds,
                MessageAttributeNames = message_attribute_names,
                AttributeNames = attribute_names\<rparr> w of
          (Inl e, w1) \<Rightarrow>
            (Inl e, (w1, tr @ [SqsReceive
               \<lparr>QueueUrl = sqs_queue_url, MaxNumberOfMessages = max_number_of_messages,
                VisibilityTimeout = visibility_timeout, WaitTimeSeconds = wait_time_seconds,
                MessageAttributeNames = message_attribute_names,
                AttributeNames = attribute_names\<rparr>]))
        | (Inr recieved_message, w1) \<Rightarrow>
            (case Messages recieved_message of
               Some msgs \<Rightarrow>
                 (case process_messages env sqs_queue_url handler msgs
                         (w1, tr @ [SqsReceive
                            \<lparr>QueueUrl = sqs_queue_url,
                             MaxNumberOfMessages = max_number_of_messages,
                             VisibilityTimeout = visibility_timeout,
                             WaitTimeSeconds = wait_time_seconds,
                             MessageAttributeNames = message_attribute_names,
                             AttributeNames = attribute_names\<rparr>]) of
                    (Some e, st2) \<Rightarrow> (Inl e, st2)
                  | (None, st2) \<Rightarrow> (Inr recieved_message, st2))
             | None \<Rightarrow>
                 (Inr recieved_message,
                  (w1, tr @ [SqsReceive
                     \<lparr>QueueUrl = sqs_queue_url, MaxNumberOfMessages = max_number_of_messages,
                      VisibilityTimeout = visibility_timeout,
                      WaitTimeSeconds = wait_time_seconds,
                      MessageAttributeNames = message_attribute_names,
                      AttributeNames = attribute_names\<rparr>,
                     PrintLine ''No messages received.''])))))"

text \<open>The \<^verbatim>\<open>except ClientError as error\<close> clause logs and raises the same exception.\<close>

definition poll_message_from_queue ::
  "'w env \<Rightarrow> string \<Rightarrow> 'w handler \<Rightarrow> int \<Rightarrow> int \<Rightarrow> string list \<Rightarrow> int \<Rightarrow> string list \<Rightarrow> 'w st
     \<Rightarrow> (exn + receive_response) \<times> 'w st" where
  "poll_message_from_queue env sqs_queue_url handler visibility_timeout wait_time_seconds
       message_attribute_names max_number_of_messages attribute_names st =
     (case poll_try env sqs_queue_url handler visibility_timeout wait_time_seconds
             message_attribute_names max_number_of_messages attribute_names st of
        (Inl (ClientError c), (w1, tr1)) \<Rightarrow>
          (Inl (ClientError c),
           (w1, tr1 @ [LogException
              (''Couldn't poll message from queue with URL='' @ sqs_queue_url @ ''!'')]))
      | (r, st1) \<Rightarrow> (r, st1))"

section \<open>Consumer loop (src/pubsublib_python_orangehealth/aws/main.py)\<close>

text \<open>
  The older loop has no integrity check and no \<^verbatim>\<open>try\<close> statement, and the function
  ends with \<^verbatim>\<open>return message\<close>: the loop variable, which is the last message of the
  batch, and which is unbound when the loop body never ran.
\<close>

fun process_messages_orangehealth ::
  "'w env \<Rightarrow> string \<Rightarrow> 'w handler \<Rightarrow> sqs_message list \<Rightarrow> 'w st \<Rightarrow> exn option \<times> 'w st" where
  "process_messages_orangehealth env sqs_queue_url handler [] st = (None, st)"
| "process_messages_orangehealth env sqs_queue_url handler (message # rest) (w, tr) =
     (case handler message w of
        (Inl e, w1) \<Rightarrow> (Some e, (w1, tr @ [Handler message (Inl e)]))
      | (Inr processing_result, w1) \<Rightarrow>
          if processing_result then
            (case sqs_delete_message env sqs_queue_url (ReceiptHandle message) w1 of
               (Some e, w2) \<Rightarrow>
                 (Some e, (w2, tr @ [Handler message (Inr True),
                                     SqsDelete sqs_queue_url (ReceiptHandle message)]))
             | (None, w2) \<Rightarrow>
                 process_messages_orangehealth env sqs_queue_url handler rest
                   (w2, tr @ [Handler message (Inr True),
                              SqsDelete sqs_queue_url (ReceiptHandle message)]))
          else process_messages_orangehealth env sqs_queue_url handler rest
                 (w1, tr @ [Handler message (Inr False)]))"

definition poll_message_from_queue_orangehealth ::
  "'w env \<Rightarrow> string \<Rightarrow> 'w handler \<Rightarrow> int \<Rightarrow> int \<Rightarrow> string list \<Rightarrow> int \<Rightarrow> string list \<Rightarrow> 'w st
     \<Rightarrow> (exn + sqs_message) \<times> 'w st" where
  "poll_message_from_queue_orangehealth env sqs_queue_url handler visibility_timeout
       wait_time_seconds message_attribute_names max_number_of_messages attribute_names st =
     (case st of (w, tr) \<Rightarrow>
       (case sqs_receive_message env
               \<lparr>QueueUrl = sqs_queue_url, MaxNumberOfMessages = max_number_of_messages,
                VisibilityTimeout = visibility_timeout, WaitTimeSeconds = wait_time_seconds,
                MessageAttributeNames = message_attribute_names,
                AttributeNames = attribute_names\<rparr> w of
          (Inl e, w1) \<Rightarrow>
            (Inl e, (w1, tr @ [SqsReceive
               \<lparr>QueueUrl = sqs_queue_url, MaxNumberOfMessages = max_number_of_messages,
                VisibilityTimeout = visibility_timeout, WaitTimeSeconds = wait_time_seconds,
                MessageAttributeNames = message_attribute_names,
                AttributeNames = attribute_names\<rparr>]))
        | (Inr recieved_message, w1) \<Rightarrow>
            (case Messages recieved_message of
               Some msgs \<Rightarrow>
                 (case process_messages_orangehealth env sqs_queue_url handler msgs
                         (w1, tr @ [SqsReceive
                            \<lparr>QueueUrl = sqs_queue_url,
                             MaxNumberOfMessages = max_number_of_messages,
                             VisibilityTimeout = visibility_timeout,
                             WaitTimeSeconds = wait_time_seconds,
                             MessageAttributeNames = message_attribute_names,
                             AttributeNames = attribute_names\<rparr>]) of
                    (Some e, st2) \<Rightarrow> (Inl e, st2)
                  | (None, st2) \<Rightarrow>
                      (if msgs = [] then Inl (UnboundLocalError ''message'')
                       else Inr (last msgs), st2))
             | None \<Rightarrow>
                 (Inl (UnboundLocalError ''message''),
                  (w1, tr @ [SqsReceive
                     \<lparr>QueueUrl = sqs_queue_url, MaxNumberOfMessages = max_number_of_messages,
                      VisibilityTimeout = visibility_timeout,
                      WaitTimeSeconds = wait_time_seconds,
                      MessageAttributeNames = message_attribute_names,
                      AttributeNames = attribute_names\<rparr>,
                     PrintLine ''No messages received.''])))))"

section \<open>Observations on a trace\<close>

text \<open>The deletions (queue URL and receipt handle), in the order of the calls.\<close>

fun deleted :: "event list \<Rightarrow> (string \<times> string) list" where
  "deleted [] = []"
| "deleted (SqsDelete u h # tr) = (u, h) # deleted tr"
| "deleted (e # tr) = deleted tr"

text \<open>The messages for which the handler returned a true value.\<close>

fun succeeded :: "event list \<Rightarrow> sqs_message list" where
  "succeeded [] = []"
| "succeeded (Handler m (Inr True) # tr) = m # succeeded tr"
| "succeeded (e # tr) = succeeded tr"

text \<open>The messages the handler was called on, whatever the outcome.\<close>

fun handled :: "event list \<Rightarrow> sqs_message list" where
  "handled [] = []"
| "handled (Handler m r # tr) = m # handled tr"
| "handled (e # tr) = handled tr"

text \<open>The calls of the cache adapter's \<^verbatim>\<open>set\<close>: key, value and time to live.\<close>

fun cache_sets :: "event list \<Rightarrow> (string \<times> string \<times> int) list" where
  "cache_sets [] = []"
| "cache_sets (CacheSet k v ttl # tr) = (k, v, ttl) # cache_sets tr"
| "cache_sets (e # tr) = cache_sets tr"

text \<open>The requests dispatched to the transport's \<^verbatim>\<open>publish\<close>.\<close>

fun published :: "event list \<Rightarrow> publish_request list" where
  "published [] = []"
| "published (SnsPublish r # tr) = r # published tr"
| "published (e # tr) = published tr"

text \<open>
  Binding follows validation: every \<open>Bind a\<close> in the trace comes directly after a
  \<open>Validate a\<close> of the same dictionary, for which the validator returned a true value.
  The second argument is the dictionary validated by the event just before, if any.
\<close>

fun validated_before_bind :: "'w env \<Rightarrow> attrs option \<Rightarrow> event list \<Rightarrow> bool" where
  "validated_before_bind env v [] = True"
| "validated_before_bind env v (Validate a # tr) =
     validated_before_bind env
       (if validate_message_attributes env a = Inr True then Some a else None) tr"
| "validated_before_bind env v (Bind a # tr) =
     (v = Some a \<and> validated_before_bind env None tr)"
| "validated_before_bind env v (e # tr) = validated_before_bind env None tr"

fun body_of :: "publish_request \<Rightarrow> string" where
  "body_of (Publish topic_arn message wire) = message"
| "body_of (PublishFifo topic_arn message g d wire) = message"

text \<open>The dictionaries handed to \<^verbatim>\<open>bind_attributes\<close>.\<close>

fun bound :: "event list \<Rightarrow> attrs list" where
  "bound [] = []"
| "bound (Bind a # tr) = a # bound tr"
| "bound (e # tr) = bound tr"

text \<open>
  The parts of a result: a publish function returns its value (or exception), the
  caller's dictionary as the call left it, and the state; the poll returns its value (or
  exception) and the state.
\<close>

definition attrs_after :: "'a \<times> attrs \<times> 'w st \<Rightarrow> attrs" where
  "attrs_after res = fst (snd res)"

definition trace_of_publish :: "'a \<times> attrs \<times> 'w st \<Rightarrow> event list" where
  "trace_of_publish res = snd (snd (snd res))"

definition trace_of_poll :: "'a \<times> 'w st \<Rightarrow> event list" where
  "trace_of_poll res = snd (snd res)"

text \<open>The acknowledgement of a message: the arguments of its \<^verbatim>\<open>delete_message\<close>.\<close>

definition ack :: "string \<Rightarrow> sqs_message \<Rightarrow> string \<times> string" where
  "ack url m = (url, ReceiptHandle m)"

text \<open>The check of the consumer loop on one message.\<close>

definition verified :: "'w env \<Rightarrow> sqs_message \<Rightarrow> bool" where
  "verified env m = is_message_integrity_verified env (Body m) (MD5OfBody m)"

text \<open>The request that \<^verbatim>\<open>poll_message_from_queue\<close> builds from its arguments.\<close>

definition receive_request_of ::
  "string \<Rightarrow> int \<Rightarrow> int \<Rightarrow> string list \<Rightarrow> int \<Rightarrow> string list \<Rightarrow> receive_request" where
  "receive_request_of sqs_queue_url visibility_timeout wait_time_seconds
       message_attribute_names max_number_of_messages attribute_names =
     \<lparr>QueueUrl = sqs_queue_url, MaxNumberOfMessages = max_number_of_messages,
      VisibilityTimeout = visibility_timeout, WaitTimeSeconds = wait_time_seconds,
      MessageAttributeNames = message_attribute_names, AttributeNames = attribute_names\<rparr>"

text \<open>
  The key drawn by the offload step of a publish call that starts in world \<open>w\<close>, and the
  caller's dictionary after that step.
\<close>

definition offload_key :: "'w env \<Rightarrow> 'w \<Rightarrow> string" where
  "offload_key env w = fst (uuid4 env w)"

definition offloaded_attrs :: "'w env \<Rightarrow> string \<Rightarrow> attrs \<Rightarrow> 'w \<Rightarrow> attrs" where
  "offloaded_attrs env message attributes w =
     (if is_large_message env message
      then AList.update ''redis_key'' (PyUUID (offload_key env w)) attributes
      else attributes)"

text \<open>The request a publish call dispatches, for a dictionary that passed validation.\<close>

definition request_of ::
  "'w env \<Rightarrow> bool \<Rightarrow> string \<Rightarrow> string \<Rightarrow> string option \<Rightarrow> string option \<Rightarrow> attrs
     \<Rightarrow> publish_request" where
  "request_of env is_fifo topic_arn message message_group_id message_deduplication_id a =
     (if is_fifo
      then PublishFifo topic_arn message message_group_id message_deduplication_id
             (bind_attributes env a)
      else Publish topic_arn message (bind_attributes env a))"

text \<open>The dictionaries handed to \<^verbatim>\<open>validate_message_attributes\<close>.\<close>

fun validated :: "event list \<Rightarrow> attrs list" where
  "validated [] = []"
| "validated (Validate a # tr) = a # validated tr"
| "validated (e # tr) = validated tr"

section \<open>The trace against the collaborators\<close>




section \<open>The attribute validator of the spec\<close>

text \<open>
  Modelled from the spec: the helper \<^verbatim>\<open>validate_message_attributes\<close> of
  \<^verbatim>\<open>aws/utils/helper.py\<close> is missing from the sources.  The spec (4.2 and 8) says that it
  returns true for a mapping with only string or binary values and false for any mapping
  that contains a value of another type; the docstrings of the publish functions say the
  same of the values ("must be either str or bytes").
\<close>

fun is_str_or_bytes :: "pyval \<Rightarrow> bool" where
  "is_str_or_bytes (PyStr s) = True"
| "is_str_or_bytes (PyBytes b) = True"
| "is_str_or_bytes (PyUUID u) = False"
| "is_str_or_bytes (PyOther x) = False"

definition validate_message_attributes_spec :: "attrs \<Rightarrow> exn + bool" where
  "validate_message_attributes_spec a = Inr (list_all is_str_or_bytes (map snd a))"

section \<open>A concrete environment\<close>

text \<open>
  Collaborators to run the adapters on: the size helper and the validator are the ones
  of the spec, a value is bound with the tag of its type, a checksum is right when it is
  the body behind the tag \<^verbatim>\<open>md5:\<close>, the world counts the keys drawn, the cache and the
  transport accept everything, and the queue holds nothing.
\<close>

definition demo_env :: "nat env" where
  "demo_env =
     \<lparr>is_large_message = is_large_message_spec,
      validate_message_attributes = validate_message_attributes_spec,
      bind_attributes =
        map (\<lambda>(k, v). (k, (case v of PyBytes b \<Rightarrow> ''Binary'' | _ \<Rightarrow> ''String''), v)),
      is_message_integrity_verified = (\<lambda>body md5. md5 = ''md5:'' @ body),
      uuid4 = (\<lambda>w. (''6f1c'', Suc w)),
      cache_set = (\<lambda>k v ttl w. (None, w)),
      sns_publish = (\<lambda>req w. (Inr \<lparr>MessageId = ''id-1''\<rparr>, w)),
      sqs_receive_message = (\<lambda>req w. (Inr \<lparr>Messages = None, ResponseMetadata = ''200''\<rparr>, w)),
      sqs_delete_message = (\<lambda>u h w. (None, w))\<rparr>"

text \<open>The same with a queue that delivers the given batch.\<close>

definition demo_env_with :: "sqs_message list \<Rightarrow> nat env" where
  "demo_env_with msgs =
     demo_env\<lparr>sqs_receive_message :=
       (\<lambda>req w. (Inr \<lparr>Messages = Some msgs, ResponseMetadata = ''200''\<rparr>, w))\<rparr>"


text \<open>The same with a transport whose \<^verbatim>\<open>publish\<close> is throttled.\<close>

definition demo_env_throttled :: "nat env" where
  "demo_env_throttled =
     demo_env\<lparr>sns_publish := (\<lambda>req w. (Inl (ClientError ''Throttling''), w)),
              sqs_receive_message := (\<lambda>req w. (Inl (ClientError ''Throttling''), w))\<rparr>"

text \<open>A handler that succeeds on the body \<^verbatim>\<open>ok\<close> and reports failure on any other.\<close>

definition demo_handler :: "nat handler" where
  "demo_handler m w = (Inr (Body m = ''ok''), w)"

definition msg_ok :: sqs_message where
  "msg_ok = \<lparr>ReceiptHandle = ''rh-1'', MD5OfBody = ''md5:ok'', Body = ''ok''\<rparr>"

definition msg_failing :: sqs_message where
  "msg_failing = \<lparr>ReceiptHandle = ''rh-2'', MD5OfBody = ''md5:no'', Body = ''no''\<rparr>"

definition msg_corrupted :: sqs_message where
  "msg_corrupted = \<lparr>ReceiptHandle = ''rh-3'', MD5OfBody = ''md5:other'', Body = ''ok''\<rparr>"

text \<open>A message body of \<open>n\<close> bytes.\<close>

definition body_of_size :: "nat \<Rightarrow> string" where
  "body_of_size n = replicate n (CHR ''x'')"

section \<open>Properties of the codec\<close>

text \<open>
  C9.  For every string \<open>s\<close>, \<open>b64_decode_and_gunzip_if s False\<close> returns exactly what
  \<open>b64_decode s\<close> returns, the decoded bytes or the exception of the decoder, and the
  gzip reader is not called.
\<close>

theorem b64_decode_and_gunzip_if_False:
  "b64_decode_and_gunzip_if lib s False = b64_decode lib s
   \<and> filter is_gzip_call (snd (b64_decode_and_gunzip_if lib s False)) = []"
  by (simp add: b64_decode_and_gunzip_if_def b64_decode_def split: sum.splits)

section \<open>The consumer loop, message by message\<close>

lemma deleted_append: "deleted (xs @ ys) = deleted xs @ deleted ys"
  by (induction xs rule: deleted.induct) simp_all

lemma succeeded_append: "succeeded (xs @ ys) = succeeded xs @ succeeded ys"
  by (induction xs rule: succeeded.induct) simp_all

lemma handled_append: "handled (xs @ ys) = handled xs @ handled ys"
  by (induction xs rule: handled.induct) simp_all

lemma process_messages_acks:
  "process_messages env url h msgs (w, tr) = (r, (w', tr')) \<Longrightarrow>
   deleted tr = map (ack url) (succeeded tr) \<Longrightarrow>
   deleted tr' = map (ack url) (succeeded tr')"
proof (induction msgs arbitrary: w tr)
  case Nil
  then show ?case by simp
next
  case (Cons m ms)
  then show ?case
    by (auto simp: ack_def deleted_append succeeded_append
        split: if_splits prod.splits sum.splits option.splits)
qed


lemma process_messages_handled:
  "process_messages env url h msgs (w, tr) = (r, (w', tr')) \<Longrightarrow>
   \<exists>hs. handled tr' = handled tr @ hs \<and> prefix hs msgs \<and> list_all (verified env) hs"
proof (induction msgs arbitrary: w tr)
  case Nil
  then show ?case by simp
next
  case (Cons m ms)
  show ?case
  proof (cases "verified env m")
    case False
    with Cons.prems show ?thesis by (simp add: verified_def)
  next
    case True
    obtain hr w1 where hm: "h m w = (hr, w1)" by (cases "h m w")
    show ?thesis
    proof (cases hr)
      case (Inl e)
      with Cons.prems True hm have "tr' = tr @ [Handler m (Inl e)]"
        by (simp add: verified_def)
      then have "handled tr' = handled tr @ [m]" by (simp add: handled_append)
      with True show ?thesis by auto
    next
      case (Inr b)
      show ?thesis
      proof (cases b)
        case False
        with Cons.prems True hm Inr
        have "process_messages env url h ms (w1, tr @ [Handler m (Inr False)]) = (r, (w', tr'))"
          by (simp add: verified_def)
        from Cons.IH [OF this] obtain hs where
          "handled tr' = handled (tr @ [Handler m (Inr False)]) @ hs"
          "prefix hs ms" "list_all (verified env) hs" by blast
        then have "handled tr' = handled tr @ (m # hs) \<and> prefix (m # hs) (m # ms)
            \<and> list_all (verified env) (m # hs)"
          using True by (simp add: handled_append)
        then show ?thesis by blast
      next
        case bt: True
        obtain dr w2 where dm: "sqs_delete_message env url (ReceiptHandle m) w1 = (dr, w2)"
          by (cases "sqs_delete_message env url (ReceiptHandle m) w1")
        show ?thesis
        proof (cases dr)
          case (Some e)
          with Cons.prems True hm Inr bt dm
          have "tr' = tr @ [Handler m (Inr True), SqsDelete url (ReceiptHandle m)]"
            by (simp add: verified_def)
          then have "handled tr' = handled tr @ [m]" by (simp add: handled_append)
          with True show ?thesis by auto
        next
          case None
          with Cons.prems True hm Inr bt dm
          have "process_messages env url h ms
                  (w2, tr @ [Handler m (Inr True), SqsDelete url (ReceiptHandle m)])
                = (r, (w', tr'))"
            by (simp add: verified_def)
          from Cons.IH [OF this] obtain hs where
            "handled tr' = handled (tr @ [Handler m (Inr True),
                SqsDelete url (ReceiptHandle m)]) @ hs"
            "prefix hs ms" "list_all (verified env) hs" by blast
          then have "handled tr' = handled tr @ (m # hs) \<and> prefix (m # hs) (m # ms)
              \<and> list_all (verified env) (m # hs)"
            using True by (simp add: handled_append)
          then show ?thesis by blast
        qed
      qed
    qed
  qed
qed

lemma process_messages_complete:
  "process_messages env url h msgs (w, tr) = (None, (w', tr')) \<Longrightarrow>
   handled tr' = handled tr @ msgs \<and> list_all (verified env) msgs"
proof (induction msgs arbitrary: w tr)
  case Nil
  then show ?case by simp
next
  case (Cons m ms)
  from Cons.prems have v: "verified env m"
    by (auto simp: verified_def split: if_splits)
  obtain hr w1 where hm: "h m w = (hr, w1)" by (cases "h m w")
  from Cons.prems v hm obtain b where hr: "hr = Inr b"
    by (cases hr) (auto simp: verified_def)
  show ?case
  proof (cases b)
    case False
    with Cons.prems v hm hr
    have "process_messages env url h ms (w1, tr @ [Handler m (Inr False)]) = (None, (w', tr'))"
      by (simp add: verified_def)
    from Cons.IH [OF this] v show ?thesis by (simp add: handled_append)
  next
    case True
    obtain dr w2 where dm: "sqs_delete_message env url (ReceiptHandle m) w1 = (dr, w2)"
      by (cases "sqs_delete_message env url (ReceiptHandle m) w1")
    from Cons.prems v hm hr True dm have dr: "dr = None"
      by (cases dr) (auto simp: verified_def)
    with Cons.prems v hm hr True dm
    have "process_messages env url h ms
            (w2, tr @ [Handler m (Inr True), SqsDelete url (ReceiptHandle m)])
          = (None, (w', tr'))"
      by (simp add: verified_def)
    from Cons.IH [OF this] v show ?thesis by (simp add: handled_append)
  qed
qed

lemma process_messages_append:
  "process_messages env url h (xs @ ys) (w, tr) =
     (case process_messages env url h xs (w, tr) of
        (None, st') \<Rightarrow> process_messages env url h ys st'
      | (Some e, st') \<Rightarrow> (Some e, st'))"
proof (induction xs arbitrary: w tr)
  case Nil
  then show ?case by simp
next
  case (Cons m ms)
  then show ?case
    by (simp split: prod.splits sum.splits option.splits)
qed


text \<open>The three ways through the try body of the poll, by what the receive call gave.\<close>

lemma poll_try_receive_raises:
  "sqs_receive_message env (receive_request_of url vt wt man mx an) w = (Inl e, w1) \<Longrightarrow>
   poll_try env url h vt wt man mx an (w, tr) =
     (Inl e, (w1, tr @ [SqsReceive (receive_request_of url vt wt man mx an)]))"
  by (simp add: poll_try_def receive_request_of_def)

lemma poll_try_no_messages:
  "sqs_receive_message env (receive_request_of url vt wt man mx an) w = (Inr resp, w1) \<Longrightarrow>
   Messages resp = None \<Longrightarrow>
   poll_try env url h vt wt man mx an (w, tr) =
     (Inr resp, (w1, tr @ [SqsReceive (receive_request_of url vt wt man mx an),
                           PrintLine ''No messages received.'']))"
  by (simp add: poll_try_def receive_request_of_def)

lemma poll_try_messages:
  "sqs_receive_message env (receive_request_of url vt wt man mx an) w = (Inr resp, w1) \<Longrightarrow>
   Messages resp = Some msgs \<Longrightarrow>
   poll_try env url h vt wt man mx an (w, tr) =
     (case process_messages env url h msgs
             (w1, tr @ [SqsReceive (receive_request_of url vt wt man mx an)]) of
        (Some e, st2) \<Rightarrow> (Inl e, st2)
      | (None, st2) \<Rightarrow> (Inr resp, st2))"
  by (simp add: poll_try_def receive_request_of_def)

text \<open>
  What the except clause of the poll does to the outcome of the try body: the value is
  kept, and the trace grows by a log record exactly when a ClientError left the body.
\<close>

lemma poll_message_from_queue_eq:
  "poll_try env url h vt wt man mx an st = (r, (w1, tr1)) \<Longrightarrow>
   poll_message_from_queue env url h vt wt man mx an st =
     (r, (w1, tr1 @ (case r of
                       Inl (ClientError c) \<Rightarrow>
                         [LogException (''Couldn't poll message from queue with URL='' @ url @ ''!'')]
                     | _ \<Rightarrow> [])))"
  by (simp add: poll_message_from_queue_def split: sum.splits exn.splits)




lemma poll_messages_trace:
  assumes recv: "sqs_receive_message env (receive_request_of url vt wt man mx an) w
                   = (Inr resp, w1)"
    and msgs: "Messages resp = Some msgs"
    and run: "process_messages env url h msgs
                (w1, [SqsReceive (receive_request_of url vt wt man mx an)]) = (x, (w2, tr2))"
  shows "\<exists>lg. poll_message_from_queue env url h vt wt man mx an (w, []) =
          ((case x of Some e \<Rightarrow> Inl e | None \<Rightarrow> Inr resp), (w2, tr2 @ lg))
         \<and> deleted lg = [] \<and> succeeded lg = [] \<and> handled lg = []
         \<and> (\<forall>e. x = Some e \<longrightarrow> (\<forall>c. e \<noteq> ClientError c) \<longrightarrow> lg = [])
         \<and> (x = None \<longrightarrow> lg = [])"
proof -
  have t: "poll_try env url h vt wt man mx an (w, []) =
           ((case x of Some e \<Rightarrow> Inl e | None \<Rightarrow> Inr resp), (w2, tr2))"
    using poll_try_messages [OF recv msgs, of h "[]"] run by (simp split: option.splits)
  show ?thesis
    unfolding poll_message_from_queue_eq [OF t]
    by (cases x) (auto split: exn.splits)
qed


lemma poll_orangehealth_no_messages:
  "sqs_receive_message env (receive_request_of url vt wt man mx an) w = (Inr resp, w1) \<Longrightarrow>
   Messages resp = None \<Longrightarrow>
   poll_message_from_queue_orangehealth env url h vt wt man mx an (w, tr) =
     (Inl (UnboundLocalError ''message''),
      (w1, tr @ [SqsReceive (receive_request_of url vt wt man mx an),
                 PrintLine ''No messages received.'']))"
  by (simp add: poll_message_from_queue_orangehealth_def receive_request_of_def)

section \<open>Acknowledgement\<close>















section \<open>Integrity failures and empty batches in the consumer loop\<close>

lemma succeeded_subset_handled: "set (succeeded tr) \<subseteq> set (handled tr)"
  by (induction tr rule: succeeded.induct) auto

lemma process_messages_corrupted:
  assumes bad: "\<not> verified env m"
    and pre: "process_messages env url h pre st = (None, st')"
  shows "process_messages env url h (pre @ m # post) st =
           (Some (ValueError ''message corrupted, Message integrity verification failed!''), st')"
proof -
  obtain w tr where st: "st = (w, tr)" by (cases st)
  obtain w' tr' where st': "st' = (w', tr')" by (cases st')
  show ?thesis
    using bad pre unfolding st st'
    by (simp add: process_messages_append verified_def)
qed

lemma poll_message_from_queue_no_messages:
  assumes recv: "sqs_receive_message env (receive_request_of url vt wt man mx an) w
                   = (Inr resp, w1)"
    and none: "Messages resp = None"
  shows "poll_message_from_queue env url h vt wt man mx an (w, []) =
           (Inr resp, (w1, [SqsReceive (receive_request_of url vt wt man mx an),
                            PrintLine ''No messages received.'']))"
  using poll_message_from_queue_eq [OF poll_try_no_messages [OF recv none, of h "[]"]]
  by simp

text \<open>
  C2, as the code has it.  In the adapter of src/pubsublib, when the receive call
  delivers a batch: the handler is called only on messages that pass the integrity
  check; every deletion is the acknowledgement of a message of the batch that passes
  it; a batch that holds a message failing the check never makes the poll return
  normally; and when the loop reaches such a message (the messages before it were
  processed without an exception) the poll raises the ValueError
  "message corrupted, Message integrity verification failed!".
\<close>

theorem poll_corrupted_message_not_handled:
  assumes recv: "sqs_receive_message env (receive_request_of url vt wt man mx an) w
                   = (Inr resp, w1)"
    and msgs: "Messages resp = Some msgs"
  shows "let res = poll_message_from_queue env url h vt wt man mx an (w, []);
             tr = trace_of_poll res
         in list_all (verified env) (handled tr)
            \<and> set (deleted tr) \<subseteq> ack url ` {m \<in> set msgs. verified env m}
            \<and> ((\<exists>m \<in> set msgs. \<not> verified env m) \<longrightarrow> (\<exists>e. fst res = Inl e))
            \<and> (\<forall>pre m post st'.
                  msgs = pre @ m # post \<and> \<not> verified env m
                  \<and> process_messages env url h pre
                        (w1, [SqsReceive (receive_request_of url vt wt man mx an)]) = (None, st')
                  \<longrightarrow> fst res = Inl (ValueError
                        ''message corrupted, Message integrity verification failed!''))"
proof -
  let ?req = "receive_request_of url vt wt man mx an"
  let ?res = "poll_message_from_queue env url h vt wt man mx an (w, [])"
  obtain x w2 tr2 where run: "process_messages env url h msgs (w1, [SqsReceive ?req])
      = (x, (w2, tr2))"
    by (metis surj_pair)
  from poll_messages_trace [OF recv msgs run] obtain lg where
    p: "?res = ((case x of Some e \<Rightarrow> Inl e | None \<Rightarrow> Inr resp), (w2, tr2 @ lg))"
    and lg: "deleted lg = []" "succeeded lg = []" "handled lg = []"
    by blast
  have tr: "trace_of_poll ?res = tr2 @ lg" by (simp add: p trace_of_poll_def)
  from process_messages_handled [OF run] have
    hv: "list_all (verified env) (handled tr2)" and hp: "prefix (handled tr2) msgs"
    by auto
  have a: "deleted tr2 = map (ack url) (succeeded tr2)"
    using process_messages_acks [OF run] by simp
  have one: "list_all (verified env) (handled (trace_of_poll ?res))"
    using hv lg by (simp add: tr handled_append)
  have "set (succeeded tr2) \<subseteq> {m \<in> set msgs. verified env m}"
    using succeeded_subset_handled [of tr2] hv set_mono_prefix [OF hp]
    by (auto simp: list_all_iff)
  then have two: "set (deleted (trace_of_poll ?res)) \<subseteq> ack url ` {m \<in> set msgs. verified env m}"
    using a lg by (auto simp: tr deleted_append)
  have three: "(\<exists>m \<in> set msgs. \<not> verified env m) \<longrightarrow> (\<exists>e. fst ?res = Inl e)"
  proof (cases x)
    case None
    with process_messages_complete [of env url h msgs w1 "[SqsReceive ?req]" w2 tr2] run
    have "list_all (verified env) msgs" by simp
    then show ?thesis by (simp add: list_all_iff)
  next
    case (Some e)
    then show ?thesis by (simp add: p)
  qed
  have four: "\<forall>pre m post st'.
      msgs = pre @ m # post \<and> \<not> verified env m
      \<and> process_messages env url h pre (w1, [SqsReceive ?req]) = (None, st')
      \<longrightarrow> fst ?res = Inl (ValueError
            ''message corrupted, Message integrity verification failed!'')"
  proof (intro allI impI, elim conjE)
    fix pre m post st'
    assume "msgs = pre @ m # post" "\<not> verified env m"
      "process_messages env url h pre (w1, [SqsReceive ?req]) = (None, st')"
    with process_messages_corrupted [of env m url h pre "(w1, [SqsReceive ?req])" st' post] run
    have "x = Some (ValueError ''message corrupted, Message integrity verification failed!'')"
      by simp
    then show "fst ?res = Inl (ValueError
        ''message corrupted, Message integrity verification failed!'')"
      by (simp add: p)
  qed
  from one two three four show ?thesis by (simp add: Let_def)
qed

theorem poll_corrupted_message_not_handled_witness:
  "sqs_receive_message (demo_env_with [msg_ok, msg_corrupted, msg_failing])
       (receive_request_of ''q-url'' 15 20 [''All''] 10 [''All'']) 0
     = (Inr \<lparr>Messages = Some [msg_ok, msg_corrupted, msg_failing], ResponseMetadata = ''200''\<rparr>, 0)
   \<and> \<not> verified (demo_env_with [msg_ok, msg_corrupted, msg_failing]) msg_corrupted
   \<and> list_all (verified (demo_env_with [msg_ok, msg_corrupted, msg_failing]))
        (handled (trace_of_poll (poll_message_from_queue
           (demo_env_with [msg_ok, msg_corrupted, msg_failing])
           ''q-url'' demo_handler 15 20 [''All''] 10 [''All''] (0, []))))
   \<and> handled (trace_of_poll (poll_message_from_queue
           (demo_env_with [msg_ok, msg_corrupted, msg_failing])
           ''q-url'' demo_handler 15 20 [''All''] 10 [''All''] (0, []))) = [msg_ok]
   \<and> fst (poll_message_from_queue (demo_env_with [msg_ok, msg_corrupted, msg_failing])
           ''q-url'' demo_handler 15 20 [''All''] 10 [''All''] (0, []))
       = Inl (ValueError ''message corrupted, Message integrity verification failed!'')"
proof -
  let ?env = "demo_env_with [msg_ok, msg_corrupted, msg_failing]"
  have recv: "sqs_receive_message ?env
       (receive_request_of ''q-url'' 15 20 [''All''] 10 [''All'']) 0
     = (Inr \<lparr>Messages = Some [msg_ok, msg_corrupted, msg_failing], ResponseMetadata = ''200''\<rparr>, 0)"
    by (simp add: demo_env_with_def demo_env_def validate_message_attributes_spec_def)
  have msgs: "Messages \<lparr>Messages = Some [msg_ok, msg_corrupted, msg_failing],
                         ResponseMetadata = ''200''\<rparr>
     = Some [msg_ok, msg_corrupted, msg_failing]"
    by simp
  have bad: "\<not> verified ?env msg_corrupted"
    by (simp add: verified_def demo_env_with_def demo_env_def validate_message_attributes_spec_def msg_corrupted_def)
  have ev: "handled (trace_of_poll (poll_message_from_queue ?env
           ''q-url'' demo_handler 15 20 [''All''] 10 [''All''] (0, []))) = [msg_ok]
    \<and> fst (poll_message_from_queue ?env
           ''q-url'' demo_handler 15 20 [''All''] 10 [''All''] (0, []))
       = Inl (ValueError ''message corrupted, Message integrity verification failed!'')"
    by (simp add: demo_env_with_def demo_env_def validate_message_attributes_spec_def demo_handler_def msg_ok_def msg_corrupted_def
        poll_message_from_queue_def poll_try_def trace_of_poll_def)
  from poll_corrupted_message_not_handled [OF recv msgs, of demo_handler]
  have t: "list_all (verified ?env)
        (handled (trace_of_poll (poll_message_from_queue ?env
           ''q-url'' demo_handler 15 20 [''All''] 10 [''All''] (0, []))))"
    by (simp add: Let_def)
  from recv bad ev t show ?thesis by simp
qed

text \<open>
  C2 as stated fails in the older adapter, whose loop has no integrity check: a message
  whose checksum does not match is passed to the handler and deleted.
\<close>

theorem poll_orangehealth_handles_corrupted_message:
  "\<not> verified (demo_env_with [msg_corrupted]) msg_corrupted
   \<and> poll_message_from_queue_orangehealth (demo_env_with [msg_corrupted])
        ''q-url'' demo_handler 20 0 [''All''] 10 [''All''] (0, [])
     = (Inr msg_corrupted,
        (0, [SqsReceive (receive_request_of ''q-url'' 20 0 [''All''] 10 [''All'']),
             Handler msg_corrupted (Inr True),
             SqsDelete ''q-url'' ''rh-3'']))"
  by (simp add: verified_def demo_env_with_def demo_env_def validate_message_attributes_spec_def demo_handler_def msg_corrupted_def
      poll_message_from_queue_orangehealth_def receive_request_of_def)

text \<open>
  C10.  When the receive call delivers a batch in which the message \<open>m\<close> fails the
  integrity check and the messages before it were processed without an exception, the
  poll raises the ValueError of the check, and the state it leaves (the world and the
  trace of calls) is the state reached after the earlier messages alone: the handler was
  called on exactly these, their deletions were made and stay, and neither \<open>m\<close> nor any
  later message of the batch is passed to the handler or deleted.
\<close>

theorem poll_stops_at_corrupted_message:
  assumes recv: "sqs_receive_message env (receive_request_of url vt wt man mx an) w
                   = (Inr resp, w1)"
    and msgs: "Messages resp = Some (pre @ m # post)"
    and bad: "\<not> verified env m"
    and earlier: "process_messages env url h pre
                    (w1, [SqsReceive (receive_request_of url vt wt man mx an)])
                  = (None, (w2, tr2))"
  shows "poll_message_from_queue env url h vt wt man mx an (w, []) =
           (Inl (ValueError ''message corrupted, Message integrity verification failed!''),
            (w2, tr2))
         \<and> handled tr2 = pre
         \<and> deleted tr2 = map (ack url) (succeeded tr2)"
proof -
  let ?req = "receive_request_of url vt wt man mx an"
  have run: "process_messages env url h (pre @ m # post) (w1, [SqsReceive ?req]) =
      (Some (ValueError ''message corrupted, Message integrity verification failed!''),
       (w2, tr2))"
    by (rule process_messages_corrupted [OF bad earlier])
  from poll_messages_trace [OF recv msgs run] have
    "poll_message_from_queue env url h vt wt man mx an (w, []) =
       (Inl (ValueError ''message corrupted, Message integrity verification failed!''),
        (w2, tr2))"
    by auto
  moreover have "handled tr2 = pre"
    using process_messages_complete [OF earlier] by simp
  moreover have "deleted tr2 = map (ack url) (succeeded tr2)"
    using process_messages_acks [OF earlier] by simp
  ultimately show ?thesis by blast
qed

theorem poll_stops_at_corrupted_message_witness:
  "sqs_receive_message (demo_env_with ([msg_ok, msg_failing] @ msg_corrupted # [msg_ok]))
       (receive_request_of ''q-url'' 15 20 [''All''] 10 [''All'']) 0
     = (Inr \<lparr>Messages = Some ([msg_ok, msg_failing] @ msg_corrupted # [msg_ok]),
             ResponseMetadata = ''200''\<rparr>, 0)
   \<and> \<not> verified (demo_env_with ([msg_ok, msg_failing] @ msg_corrupted # [msg_ok])) msg_corrupted
   \<and> poll_message_from_queue (demo_env_with ([msg_ok, msg_failing] @ msg_corrupted # [msg_ok]))
        ''q-url'' demo_handler 15 20 [''All''] 10 [''All''] (0, [])
     = (Inl (ValueError ''message corrupted, Message integrity verification failed!''),
        (0, [SqsReceive (receive_request_of ''q-url'' 15 20 [''All''] 10 [''All'']),
             Handler msg_ok (Inr True), SqsDelete ''q-url'' ''rh-1'',
             Handler msg_failing (Inr False)]))"
proof -
  let ?env = "demo_env_with ([msg_ok, msg_failing] @ msg_corrupted # [msg_ok])"
  have recv: "sqs_receive_message ?env
       (receive_request_of ''q-url'' 15 20 [''All''] 10 [''All'']) 0
     = (Inr \<lparr>Messages = Some ([msg_ok, msg_failing] @ msg_corrupted # [msg_ok]),
             ResponseMetadata = ''200''\<rparr>, 0)"
    by (simp add: demo_env_with_def demo_env_def validate_message_attributes_spec_def)
  have msgs: "Messages \<lparr>Messages = Some ([msg_ok, msg_failing] @ msg_corrupted # [msg_ok]),
                         ResponseMetadata = ''200''\<rparr>
     = Some ([msg_ok, msg_failing] @ msg_corrupted # [msg_ok])"
    by simp
  have bad: "\<not> verified ?env msg_corrupted"
    by (simp add: verified_def demo_env_with_def demo_env_def validate_message_attributes_spec_def msg_corrupted_def)
  have earlier: "process_messages ?env ''q-url'' demo_handler [msg_ok, msg_failing]
       (0, [SqsReceive (receive_request_of ''q-url'' 15 20 [''All''] 10 [''All''])])
     = (None, (0, [SqsReceive (receive_request_of ''q-url'' 15 20 [''All''] 10 [''All'']),
             Handler msg_ok (Inr True), SqsDelete ''q-url'' ''rh-1'',
             Handler msg_failing (Inr False)]))"
    by (simp add: demo_env_with_def demo_env_def validate_message_attributes_spec_def demo_handler_def msg_ok_def msg_failing_def)
  from poll_stops_at_corrupted_message [OF recv msgs bad earlier] recv bad
  show ?thesis by blast
qed

text \<open>
  C8 in the older adapter: a receive result without messages makes the poll raise.  The
  function ends with \<^verbatim>\<open>return message\<close>, the loop variable, which was never bound.
\<close>

theorem poll_orangehealth_no_messages_raises:
  "poll_message_from_queue_orangehealth demo_env ''q-url'' demo_handler 20 0 [''All''] 10
       [''All''] (0, [])
     = (Inl (UnboundLocalError ''message''),
        (0, [SqsReceive (receive_request_of ''q-url'' 20 0 [''All''] 10 [''All'']),
             PrintLine ''No messages received.'']))
   \<and> fst (poll_message_from_queue_orangehealth (demo_env_with []) ''q-url'' demo_handler
        20 0 [''All''] 10 [''All''] (0, []))
     = Inl (UnboundLocalError ''message'')"
  by (simp add: demo_env_with_def demo_env_def validate_message_attributes_spec_def poll_message_from_queue_orangehealth_def
      receive_request_of_def)

section \<open>The calls of a publish\<close>


lemma published_append: "published (xs @ ys) = published xs @ published ys"
  by (induction xs rule: published.induct) simp_all

lemma bound_append: "bound (xs @ ys) = bound xs @ bound ys"
  by (induction xs rule: bound.induct) simp_all

text \<open>The offload step, by what the size helper says.\<close>

lemma offload_if_large_large:
  "is_large_message env message \<Longrightarrow>
   offload_if_large env message attributes (w, tr) =
     (fst (cache_set env (fst (uuid4 env w)) message 14400 (snd (uuid4 env w))),
      AList.update ''redis_key'' (PyUUID (fst (uuid4 env w))) attributes,
      (snd (cache_set env (fst (uuid4 env w)) message 14400 (snd (uuid4 env w))),
       tr @ [Uuid4Call (fst (uuid4 env w)), CacheSet (fst (uuid4 env w)) message 14400]))"
  by (simp add: offload_if_large_def split: prod.splits)

lemma offload_if_large_small:
  "\<not> is_large_message env message \<Longrightarrow>
   offload_if_large env message attributes st = (None, attributes, st)"
  by (simp add: offload_if_large_def)

text \<open>
  The except and else clauses of the four publish functions are the same function of
  the outcome of the try body; only the log text differs.
\<close>

lemma publish_message_standard_queue_eq:
  "publish_standard_try env topic message attributes st = (r, a1, (w1, tr1)) \<Longrightarrow>
   publish_message_standard_queue env topic message attributes st =
     ((case r of
         Inl (ClientError c) \<Rightarrow> Inr None
       | Inl e \<Rightarrow> Inl e
       | Inr None \<Rightarrow> Inl (UnboundLocalError ''message_id'')
       | Inr (Some message_id) \<Rightarrow> Inr (Some message_id)),
      a1,
      (w1, tr1 @ (case r of
                    Inl (ClientError c) \<Rightarrow>
                      [LogException (''Couldn't publish message to topic '' @ topic @ ''.'')]
                  | _ \<Rightarrow> [])))"
  by (simp add: publish_message_standard_queue_def split: sum.splits exn.splits option.splits)

lemma publish_message_fifo_queue_eq:
  "publish_fifo_try env topic message g d attributes st = (r, a1, (w1, tr1)) \<Longrightarrow>
   publish_message_fifo_queue env topic message g d attributes st =
     ((case r of
         Inl (ClientError c) \<Rightarrow> Inr None
       | Inl e \<Rightarrow> Inl e
       | Inr None \<Rightarrow> Inl (UnboundLocalError ''message_id'')
       | Inr (Some message_id) \<Rightarrow> Inr (Some message_id)),
      a1,
      (w1, tr1 @ (case r of
                    Inl (ClientError c) \<Rightarrow>
                      [LogException (''Couldn't publish message to FIFO topic '' @ topic @ ''.'')]
                  | _ \<Rightarrow> [])))"
  by (simp add: publish_message_fifo_queue_def split: sum.splits exn.splits option.splits)

text \<open>The try bodies, after an offload step whose outcome is known.\<close>

lemma publish_standard_try_eq:
  "offload_if_large env message attributes st = (x, a1, (w1, tr1)) \<Longrightarrow>
   publish_standard_try env topic message attributes st =
     (case x of
        Some e \<Rightarrow> (Inl e, a1, (w1, tr1))
      | None \<Rightarrow>
          (case validate_message_attributes env a1 of
             Inl e \<Rightarrow> (Inl e, a1, (w1, tr1 @ [Validate a1]))
           | Inr ok \<Rightarrow>
               if ok then
                 (case fst (sns_publish env (Publish topic message (bind_attributes env a1)) w1) of
                    Inl e \<Rightarrow> Inl e
                  | Inr response \<Rightarrow> Inr (Some (MessageId response)),
                  a1,
                  (snd (sns_publish env (Publish topic message (bind_attributes env a1)) w1),
                   tr1 @ [Validate a1, Bind a1,
                          SnsPublish (Publish topic message (bind_attributes env a1))]))
               else (Inr None, a1, (w1, tr1 @ [Validate a1]))))"
  by (simp add: publish_standard_try_def split: option.splits sum.splits prod.splits)

lemma publish_fifo_try_eq:
  "offload_if_large env message attributes st = (x, a1, (w1, tr1)) \<Longrightarrow>
   publish_fifo_try env topic message g d attributes st =
     (case x of
        Some e \<Rightarrow> (Inl e, a1, (w1, tr1))
      | None \<Rightarrow>
          (case validate_message_attributes env a1 of
             Inl e \<Rightarrow> (Inl e, a1, (w1, tr1 @ [Validate a1]))
           | Inr ok \<Rightarrow>
               if ok then
                 (case fst (sns_publish env
                              (PublishFifo topic message g d (bind_attributes env a1)) w1) of
                    Inl e \<Rightarrow> Inl e
                  | Inr response \<Rightarrow> Inr (Some (MessageId response)),
                  a1,
                  (snd (sns_publish env
                          (PublishFifo topic message g d (bind_attributes env a1)) w1),
                   tr1 @ [Validate a1, Bind a1,
                          SnsPublish (PublishFifo topic message g d (bind_attributes env a1))]))
               else (Inr None, a1, (w1, tr1 @ [Validate a1]))))"
  by (simp add: publish_fifo_try_def split: option.splits sum.splits prod.splits)

text \<open>The dictionary and the calls of the try bodies, written out.\<close>

lemma publish_standard_try_calls:
  "fst (snd (publish_standard_try env topic message attributes (w, [])))
     = offloaded_attrs env message attributes w
   \<and> snd (snd (snd (publish_standard_try env topic message attributes (w, [])))) =
       (if is_large_message env message
        then [Uuid4Call (offload_key env w), CacheSet (offload_key env w) message 14400]
        else [])
       @ (if fst (offload_if_large env message attributes (w, [])) = None
          then Validate (offloaded_attrs env message attributes w)
               # (if validate_message_attributes env (offloaded_attrs env message attributes w)
                      = Inr True
                  then [Bind (offloaded_attrs env message attributes w),
                        SnsPublish (request_of env False topic message g d
                          (offloaded_attrs env message attributes w))]
                  else [])
          else [])"
proof (cases "is_large_message env message")
  case True
  note off = offload_if_large_large [OF True, of attributes w "[]"]
  show ?thesis
    unfolding publish_standard_try_eq [OF off]
    using True
    by (simp add: off offload_key_def offloaded_attrs_def request_of_def
        split: option.splits sum.splits)
next
  case False
  note off = offload_if_large_small [OF False, of attributes "(w, [])"]
  show ?thesis
    unfolding publish_standard_try_eq [OF off]
    using False
    by (simp add: off offload_key_def offloaded_attrs_def request_of_def
        split: option.splits sum.splits)
qed

lemma publish_fifo_try_calls:
  "fst (snd (publish_fifo_try env topic message g d attributes (w, [])))
     = offloaded_attrs env message attributes w
   \<and> snd (snd (snd (publish_fifo_try env topic message g d attributes (w, [])))) =
       (if is_large_message env message
        then [Uuid4Call (offload_key env w), CacheSet (offload_key env w) message 14400]
        else [])
       @ (if fst (offload_if_large env message attributes (w, [])) = None
          then Validate (offloaded_attrs env message attributes w)
               # (if validate_message_attributes env (offloaded_attrs env message attributes w)
                      = Inr True
                  then [Bind (offloaded_attrs env message attributes w),
                        SnsPublish (request_of env True topic message g d
                          (offloaded_attrs env message attributes w))]
                  else [])
          else [])"
proof (cases "is_large_message env message")
  case True
  note off = offload_if_large_large [OF True, of attributes w "[]"]
  show ?thesis
    unfolding publish_fifo_try_eq [OF off]
    using True
    by (simp add: off offload_key_def offloaded_attrs_def request_of_def
        split: option.splits sum.splits)
next
  case False
  note off = offload_if_large_small [OF False, of attributes "(w, [])"]
  show ?thesis
    unfolding publish_fifo_try_eq [OF off]
    using False
    by (simp add: off offload_key_def offloaded_attrs_def request_of_def
        split: option.splits sum.splits)
qed

lemma log_record_only:
  "\<exists>lg. (case r of Inl (ClientError c) \<Rightarrow> [LogException s] | _ \<Rightarrow> []) = map LogException lg"
proof (cases r)
  case (Inl e)
  show ?thesis
  proof (cases e)
    case (ClientError c)
    have "[LogException s] = map LogException [s]" by simp
    with Inl ClientError show ?thesis by (simp del: list.map) blast
  qed (simp_all add: Inl)
qed simp

text \<open>
  The calls of a publish: those of the offload step, those of validation, binding and
  dispatch, and at most one log record.
\<close>

lemma publish_message_calls:
  "attrs_after (publish_message env topic message attributes is_fifo g d (w, []))
     = offloaded_attrs env message attributes w
   \<and> (\<exists>lg. trace_of_publish (publish_message env topic message attributes is_fifo g d (w, [])) =
       (if is_large_message env message
        then [Uuid4Call (offload_key env w), CacheSet (offload_key env w) message 14400]
        else [])
       @ (if fst (offload_if_large env message attributes (w, [])) = None
          then Validate (offloaded_attrs env message attributes w)
               # (if validate_message_attributes env (offloaded_attrs env message attributes w)
                      = Inr True
                  then [Bind (offloaded_attrs env message attributes w),
                        SnsPublish (request_of env is_fifo topic message g d
                          (offloaded_attrs env message attributes w))]
                  else [])
          else [])
       @ map LogException lg)"
proof (cases is_fifo)
  case True
  obtain r a1 w1 tr1 where
    t: "publish_fifo_try env topic message g d attributes (w, []) = (r, a1, (w1, tr1))"
    by (metis surj_pair)
  note lg = log_record_only
    [where r = r and s = "''Couldn't publish message to FIFO topic '' @ topic @ ''.''"]
  show ?thesis
    using publish_fifo_try_calls [of env topic message g d attributes w] lg True
    unfolding publish_message_def publish_message_fifo_queue_eq [OF t]
    by (auto simp: t attrs_after_def trace_of_publish_def)
next
  case False
  obtain r a1 w1 tr1 where
    t: "publish_standard_try env topic message attributes (w, []) = (r, a1, (w1, tr1))"
    by (metis surj_pair)
  note lg = log_record_only
    [where r = r and s = "''Couldn't publish message to topic '' @ topic @ ''.''"]
  show ?thesis
    using publish_standard_try_calls [of env topic message attributes w g d] lg False
    unfolding publish_message_def publish_message_standard_queue_eq [OF t]
    by (auto simp: t attrs_after_def trace_of_publish_def)
qed

lemma cache_sets_log [simp]: "cache_sets (map LogException lg) = []"
  by (induction lg) simp_all

lemma published_log [simp]: "published (map LogException lg) = []"
  by (induction lg) simp_all

lemma bound_log [simp]: "bound (map LogException lg) = []"
  by (induction lg) simp_all

lemma validated_before_bind_log [simp]: "validated_before_bind env v (map LogException lg)"
  by (induction lg arbitrary: v) simp_all

section \<open>Offload, validation and dispatch\<close>

lemma length_body_of_size: "length (body_of_size n) = n"
  unfolding body_of_size_def by (rule length_replicate)



lemma publish_message_published:
  "published (trace_of_publish (publish_message env topic message attributes is_fifo g d (w, [])))
     = (if fst (offload_if_large env message attributes (w, [])) = None
           \<and> validate_message_attributes env (offloaded_attrs env message attributes w) = Inr True
        then [request_of env is_fifo topic message g d (offloaded_attrs env message attributes w)]
        else [])"
proof -
  from publish_message_calls [of env topic message attributes is_fifo g d w]
  obtain lg where
    t: "trace_of_publish (publish_message env topic message attributes is_fifo g d (w, [])) =
       (if is_large_message env message
        then [Uuid4Call (offload_key env w), CacheSet (offload_key env w) message 14400]
        else [])
       @ (if fst (offload_if_large env message attributes (w, [])) = None
          then Validate (offloaded_attrs env message attributes w)
               # (if validate_message_attributes env (offloaded_attrs env message attributes w)
                      = Inr True
                  then [Bind (offloaded_attrs env message attributes w),
                        SnsPublish (request_of env is_fifo topic message g d
                          (offloaded_attrs env message attributes w))]
                  else [])
          else [])
       @ map LogException lg"
    by blast
  show ?thesis unfolding t by (simp add: published_append)
qed

lemma publish_message_bound:
  "bound (trace_of_publish (publish_message env topic message attributes is_fifo g d (w, [])))
     = (if fst (offload_if_large env message attributes (w, [])) = None
           \<and> validate_message_attributes env (offloaded_attrs env message attributes w) = Inr True
        then [offloaded_attrs env message attributes w]
        else [])"
proof -
  from publish_message_calls [of env topic message attributes is_fifo g d w]
  obtain lg where
    t: "trace_of_publish (publish_message env topic message attributes is_fifo g d (w, [])) =
       (if is_large_message env message
        then [Uuid4Call (offload_key env w), CacheSet (offload_key env w) message 14400]
        else [])
       @ (if fst (offload_if_large env message attributes (w, [])) = None
          then Validate (offloaded_attrs env message attributes w)
               # (if validate_message_attributes env (offloaded_attrs env message attributes w)
                      = Inr True
                  then [Bind (offloaded_attrs env message attributes w),
                        SnsPublish (request_of env is_fifo topic message g d
                          (offloaded_attrs env message attributes w))]
                  else [])
          else [])
       @ map LogException lg"
    by blast
  show ?thesis unfolding t by (simp add: bound_append)
qed

lemma publish_message_validated_before_bind:
  "validated_before_bind env None
     (trace_of_publish (publish_message env topic message attributes is_fifo g d (w, [])))"
proof -
  from publish_message_calls [of env topic message attributes is_fifo g d w]
  obtain lg where
    t: "trace_of_publish (publish_message env topic message attributes is_fifo g d (w, [])) =
       (if is_large_message env message
        then [Uuid4Call (offload_key env w), CacheSet (offload_key env w) message 14400]
        else [])
       @ (if fst (offload_if_large env message attributes (w, [])) = None
          then Validate (offloaded_attrs env message attributes w)
               # (if validate_message_attributes env (offloaded_attrs env message attributes w)
                      = Inr True
                  then [Bind (offloaded_attrs env message attributes w),
                        SnsPublish (request_of env is_fifo topic message g d
                          (offloaded_attrs env message attributes w))]
                  else [])
          else [])
       @ map LogException lg"
    by blast
  show ?thesis unfolding t by simp
qed

text \<open>
  The publish functions of the older adapter never get past the argument of the
  validation call: they bind and dispatch nothing, and return no message id.
\<close>

lemma publish_orangehealth_try_calls:
  "fst (snd (publish_orangehealth_try env message attributes (w, [])))
     = offloaded_attrs env message attributes w
   \<and> snd (snd (snd (publish_orangehealth_try env message attributes (w, [])))) =
       (if is_large_message env message
        then [Uuid4Call (offload_key env w), CacheSet (offload_key env w) message 14400]
        else [])
   \<and> (\<exists>e. fst (publish_orangehealth_try env message attributes (w, [])) = Inl e)"
proof (cases "is_large_message env message")
  case True
  note off = offload_if_large_large [OF True, of attributes w "[]"]
  show ?thesis
    using True
    by (simp add: publish_orangehealth_try_def off offload_key_def offloaded_attrs_def
        split: option.splits)
next
  case False
  note off = offload_if_large_small [OF False, of attributes "(w, [])"]
  show ?thesis
    using False
    by (simp add: publish_orangehealth_try_def off offload_key_def offloaded_attrs_def)
qed

lemma publish_message_orangehealth_calls:
  "\<exists>lg. trace_of_publish (publish_message_orangehealth env topic message attributes (w, [])) =
       (if is_large_message env message
        then [Uuid4Call (offload_key env w), CacheSet (offload_key env w) message 14400]
        else [])
       @ map LogException lg"
proof -
  obtain r a1 w1 tr1 where
    t: "publish_orangehealth_try env message attributes (w, []) = (r, a1, (w1, tr1))"
    by (metis surj_pair)
  note lg = log_record_only
    [where r = r and s = "''Couldn't publish message to topic '' @ topic @ ''.''"]
  have eq: "trace_of_publish (publish_message_orangehealth env topic message attributes (w, []))
      = tr1 @ (case r of Inl (ClientError c) \<Rightarrow>
                 [LogException (''Couldn't publish message to topic '' @ topic @ ''.'')]
               | _ \<Rightarrow> [])"
    by (simp add: publish_message_orangehealth_def t trace_of_publish_def
        split: sum.splits exn.splits option.splits)
  show ?thesis
    using publish_orangehealth_try_calls [of env message attributes w] lg
    unfolding eq by (auto simp: t)
qed

lemma publish_message_fifo_orangehealth_calls:
  "\<exists>lg. trace_of_publish
          (publish_message_fifo_orangehealth env topic message g d attributes (w, [])) =
       (if is_large_message env message
        then [Uuid4Call (offload_key env w), CacheSet (offload_key env w) message 14400]
        else [])
       @ map LogException lg"
proof -
  obtain r a1 w1 tr1 where
    t: "publish_orangehealth_try env message attributes (w, []) = (r, a1, (w1, tr1))"
    by (metis surj_pair)
  note lg = log_record_only
    [where r = r and s = "''Couldn't publish message to FIFO topic '' @ topic @ ''.''"]
  have eq: "trace_of_publish
        (publish_message_fifo_orangehealth env topic message g d attributes (w, []))
      = tr1 @ (case r of Inl (ClientError c) \<Rightarrow>
                 [LogException (''Couldn't publish message to FIFO topic '' @ topic @ ''.'')]
               | _ \<Rightarrow> [])"
    by (simp add: publish_message_fifo_orangehealth_def t trace_of_publish_def
        split: sum.splits exn.splits option.splits)
  show ?thesis
    using publish_orangehealth_try_calls [of env message attributes w] lg
    unfolding eq by (auto simp: t)
qed

section \<open>Validation before binding\<close>

lemma validated_append: "validated (xs @ ys) = validated xs @ validated ys"
  by (induction xs rule: validated.induct) simp_all

lemma validated_log [simp]: "validated (map LogException lg) = []"
  by (induction lg) simp_all

text \<open>
  On both publish paths of the current adapter the dictionary handed to
  \<open>bind_attributes\<close> has been validated first: each binding in the trace comes directly
  after the validation of the same dictionary, which returned a true value, and the
  dictionary validated and bound is the caller's one as the offload step left it.
\<close>

lemma publish_message_validates_before_bind:
  "let res = publish_message env topic message attributes is_fifo g d (w, [])
   in validated_before_bind env None (trace_of_publish res)
      \<and> list_all (\<lambda>a. a = attrs_after res \<and> validate_message_attributes env a = Inr True)
           (bound (trace_of_publish res))"
  using publish_message_calls [of env topic message attributes is_fifo g d w]
  by (simp add: Let_def publish_message_validated_before_bind publish_message_bound)

text \<open>
  The publish functions of the older adapter, on any input: nothing is validated,
  nothing is bound, nothing is dispatched, and no message id is returned.
\<close>

lemma publish_orangehealth_try_never_returns:
  "fst (publish_orangehealth_try env message attributes st) \<noteq> Inr v"
  by (simp add: publish_orangehealth_try_def split: prod.splits option.splits)

lemma publish_orangehealth_never_validates:
  "(let res = publish_message_orangehealth env topic message attributes (w, [])
    in validated (trace_of_publish res) = [] \<and> bound (trace_of_publish res) = []
       \<and> published (trace_of_publish res) = [] \<and> fst res \<noteq> Inr (Some message_id))
   \<and> (let res = publish_message_fifo_orangehealth env topic message g d attributes (w, [])
      in validated (trace_of_publish res) = [] \<and> bound (trace_of_publish res) = []
         \<and> published (trace_of_publish res) = [] \<and> fst res \<noteq> Inr (Some message_id))"
proof -
  from publish_message_orangehealth_calls [of env topic message attributes w]
  obtain lg where
    t: "trace_of_publish (publish_message_orangehealth env topic message attributes (w, [])) =
       (if is_large_message env message
        then [Uuid4Call (offload_key env w), CacheSet (offload_key env w) message 14400]
        else [])
       @ map LogException lg"
    by blast
  from publish_message_fifo_orangehealth_calls [of env topic message g d attributes w]
  obtain lg' where
    t': "trace_of_publish
        (publish_message_fifo_orangehealth env topic message g d attributes (w, [])) =
       (if is_large_message env message
        then [Uuid4Call (offload_key env w), CacheSet (offload_key env w) message 14400]
        else [])
       @ map LogException lg'"
    by blast
  obtain r a1 st1 where
    y: "publish_orangehealth_try env message attributes (w, []) = (r, a1, st1)"
    by (metis surj_pair)
  have nr: "\<And>v. r \<noteq> Inr v"
    using publish_orangehealth_try_never_returns [of env message attributes "(w, [])"] y
    by simp
  have r: "fst (publish_message_orangehealth env topic message attributes (w, []))
             \<noteq> Inr (Some message_id)"
    using nr
    by (cases r)
       (auto simp: publish_message_orangehealth_def y split: exn.splits prod.splits)
  have r': "fst (publish_message_fifo_orangehealth env topic message g d attributes (w, []))
             \<noteq> Inr (Some message_id)"
    using nr
    by (cases r)
       (auto simp: publish_message_fifo_orangehealth_def y split: exn.splits prod.splits)
  show ?thesis
    using r r'
    by (simp add: Let_def t t' validated_append bound_append published_append)
qed

text \<open>
  C7 fails in the older adapter.  Both of its publish functions call the validator on
  \<^verbatim>\<open>message_attributes\<close>, a local variable that is bound only on the next line, instead
  of on \<^verbatim>\<open>attributes\<close>.  On an ordinary message with a valid dictionary the call raises
  \<^verbatim>\<open>UnboundLocalError\<close>, and the trace is empty: the validator never ran, and nothing was
  bound or dispatched.
\<close>

theorem publish_orangehealth_raises_before_validation:
  "publish_message_orangehealth demo_env ''arn:aws:sns:orders'' ''hello''
       [(''kind'', PyStr ''order'')] (0, [])
     = (Inl (UnboundLocalError ''message_attributes''), [(''kind'', PyStr ''order'')], (0, []))
   \<and> publish_message_fifo_orangehealth demo_env ''arn:aws:sns:orders.fifo'' ''hello''
        (Some ''g1'') (Some ''d1'') [(''kind'', PyStr ''order'')] (0, [])
     = (Inl (UnboundLocalError ''message_attributes''), [(''kind'', PyStr ''order'')], (0, []))
   \<and> validate_message_attributes demo_env [(''kind'', PyStr ''order'')] = Inr True"
  by (simp add: publish_message_orangehealth_def publish_message_fifo_orangehealth_def
      publish_orangehealth_try_def offload_if_large_def demo_env_def
      validate_message_attributes_spec_def is_large_message_spec_def)

section \<open>The body of an offloaded message\<close>

text \<open>Every request a publish dispatches carries the message it was given as its body.\<close>

lemma publish_message_body_unchanged:
  "list_all (\<lambda>req. body_of req = message)
     (published (trace_of_publish
        (publish_message env topic message attributes is_fifo g d (w, []))))"
  by (simp add: publish_message_published request_of_def)

text \<open>A message id is returned only for a request that was dispatched.\<close>

lemma publish_message_id_only_if_published:
  assumes "fst (publish_message env topic message attributes is_fifo g d (w, []))
             = Inr (Some message_id)"
  shows "published (trace_of_publish
           (publish_message env topic message attributes is_fifo g d (w, []))) \<noteq> []"
proof -
  obtain x a1 w1 tr1 where
    off: "offload_if_large env message attributes (w, []) = (x, a1, (w1, tr1))"
    by (metis surj_pair)
  show ?thesis
  proof (cases is_fifo)
    case True
    obtain r a2 w2 tr2 where
      t: "publish_fifo_try env topic message g d attributes (w, []) = (r, a2, (w2, tr2))"
      by (metis surj_pair)
    from assms True have r: "r = Inr (Some message_id)"
      unfolding publish_message_def publish_message_fifo_queue_eq [OF t]
      by (auto split: sum.splits exn.splits option.splits)
    from t r have "published tr2 \<noteq> []"
      unfolding publish_fifo_try_eq [OF off]
      by (auto simp: published_append split: option.splits sum.splits if_splits)
    then show ?thesis
      using True r
      unfolding publish_message_def publish_message_fifo_queue_eq [OF t]
      by (simp add: trace_of_publish_def published_append)
  next
    case False
    obtain r a2 w2 tr2 where
      t: "publish_standard_try env topic message attributes (w, []) = (r, a2, (w2, tr2))"
      by (metis surj_pair)
    from assms False have r: "r = Inr (Some message_id)"
      unfolding publish_message_def publish_message_standard_queue_eq [OF t]
      by (auto split: sum.splits exn.splits option.splits)
    from t r have "published tr2 \<noteq> []"
      unfolding publish_standard_try_eq [OF off]
      by (auto simp: published_append split: option.splits sum.splits if_splits)
    then show ?thesis
      using False r
      unfolding publish_message_def publish_message_standard_queue_eq [OF t]
      by (simp add: trace_of_publish_def published_append)
  qed
qed

text \<open>
  The offload step stores a UUID object under \<^verbatim>\<open>redis_key\<close>.  So with any validator that
  accepts only dictionaries whose values are strings or binary, whether it rejects by a
  false value or by raising, a publish of a large message dispatches nothing and returns
  no message id.
\<close>

lemma offloaded_attrs_not_valid:
  "\<not> list_all is_str_or_bytes (map snd (AList.update ''redis_key'' (PyUUID k) attributes))"
proof -
  have "map_of (AList.update ''redis_key'' (PyUUID k) attributes) ''redis_key''
          = Some (PyUUID k)"
    by (simp add: update_conv')
  then have "(''redis_key'', PyUUID k) \<in> set (AList.update ''redis_key'' (PyUUID k) attributes)"
    by (rule map_of_SomeD)
  then have "\<exists>x \<in> set (AList.update ''redis_key'' (PyUUID k) attributes).
               \<not> is_str_or_bytes (snd x)"
    by (rule bexI [rotated]) simp
  then show ?thesis
    by (simp add: list_all_iff)
qed

lemma offloaded_publish_dispatches_nothing:
  assumes large: "is_large_message env message"
    and conforming: "\<And>a. validate_message_attributes env a = Inr True
                        \<Longrightarrow> list_all is_str_or_bytes (map snd a)"
  shows "published (trace_of_publish
           (publish_message env topic message attributes is_fifo g d (w, []))) = []
         \<and> fst (publish_message env topic message attributes is_fifo g d (w, []))
             \<noteq> Inr (Some message_id)"
proof -
  have a1: "offloaded_attrs env message attributes w =
      AList.update ''redis_key'' (PyUUID (offload_key env w)) attributes"
    by (simp add: offloaded_attrs_def large)
  have "validate_message_attributes env (offloaded_attrs env message attributes w) \<noteq> Inr True"
    using conforming [of "offloaded_attrs env message attributes w"]
      offloaded_attrs_not_valid [of "offload_key env w" attributes]
    by (auto simp: a1)
  then have p: "published (trace_of_publish
           (publish_message env topic message attributes is_fifo g d (w, []))) = []"
    by (simp add: publish_message_published)
  with publish_message_id_only_if_published
         [of env topic message attributes is_fifo g d w message_id]
  show ?thesis by blast
qed

text \<open>
  C6 fails on the code.  A message of 200 * 1024 + 1 bytes with a valid dictionary, on
  either path: the offload step stores the UUID object under \<^verbatim>\<open>redis_key\<close>, the
  validator of the spec then returns a false value, so nothing is bound and no body is
  dispatched, original or other, and \<^verbatim>\<open>return message_id\<close> raises \<^verbatim>\<open>UnboundLocalError\<close>.
\<close>

theorem publish_offloaded_message_is_not_dispatched:
  "publish_message demo_env ''arn:aws:sns:orders'' (body_of_size 204801)
       [(''kind'', PyStr ''order'')] False None None (0, [])
     = (Inl (UnboundLocalError ''message_id''),
        [(''kind'', PyStr ''order''), (''redis_key'', PyUUID ''6f1c'')],
        (1, [Uuid4Call ''6f1c'', CacheSet ''6f1c'' (body_of_size 204801) 14400,
             Validate [(''kind'', PyStr ''order''), (''redis_key'', PyUUID ''6f1c'')]]))
   \<and> publish_message demo_env ''arn:aws:sns:orders.fifo'' (body_of_size 204801)
       [(''kind'', PyStr ''order'')] True (Some ''g1'') (Some ''d1'') (0, [])
     = (Inl (UnboundLocalError ''message_id''),
        [(''kind'', PyStr ''order''), (''redis_key'', PyUUID ''6f1c'')],
        (1, [Uuid4Call ''6f1c'', CacheSet ''6f1c'' (body_of_size 204801) 14400,
             Validate [(''kind'', PyStr ''order''), (''redis_key'', PyUUID ''6f1c'')]]))"
  by (simp add: publish_message_def publish_message_standard_queue_def
      publish_message_fifo_queue_def publish_standard_try_def publish_fifo_try_def
      offload_if_large_def demo_env_def validate_message_attributes_spec_def
      is_large_message_spec_def length_body_of_size)

section \<open>Ordered publish\<close>

text \<open>
  C3 as stated fails: an ordered publish without a group id and without a deduplication
  id is dispatched to the transport, with \<^verbatim>\<open>None\<close> for both, and returns the message id
  the transport gave.
\<close>

theorem publish_fifo_without_ids_is_dispatched:
  "publish_message demo_env ''arn:aws:sns:orders.fifo'' ''hello'' [] True None None (0, [])
     = (Inr (Some ''id-1''), [],
        (0, [Validate [], Bind [],
             SnsPublish (PublishFifo ''arn:aws:sns:orders.fifo'' ''hello'' None None [])]))"
  by (simp add: publish_message_def publish_message_fifo_queue_def publish_fifo_try_def
      offload_if_large_def demo_env_def validate_message_attributes_spec_def is_large_message_spec_def)

text \<open>
  C3, as the code has it.  An ordered publish does not look at the group id or the
  deduplication id: whether a request is dispatched depends on the offload step and on
  validation alone, and the request carries both ids exactly as the caller gave them,
  \<^verbatim>\<open>None\<close> included.
\<close>

theorem publish_fifo_passes_ids_unchecked:
  "published (trace_of_publish
      (publish_message env topic message attributes True g d (w, [])))
     = (if fst (offload_if_large env message attributes (w, [])) = None
           \<and> validate_message_attributes env
                (attrs_after (publish_message env topic message attributes True g d (w, [])))
              = Inr True
        then [PublishFifo topic message g d
                (bind_attributes env
                   (attrs_after (publish_message env topic message attributes True g d (w, []))))]
        else [])"
  using publish_message_calls [of env topic message attributes True g d w]
  by (simp add: publish_message_published request_of_def)

theorem publish_fifo_passes_ids_unchecked_witness:
  "published (trace_of_publish
      (publish_message demo_env ''arn:aws:sns:orders.fifo'' ''hello'' [(''kind'', PyStr ''order'')]
         True None (Some ''dedup-7'') (0, [])))
     = [PublishFifo ''arn:aws:sns:orders.fifo'' ''hello'' None (Some ''dedup-7'')
          [(''kind'', ''String'', PyStr ''order'')]]"
proof -
  have ev: "fst (offload_if_large demo_env ''hello'' [(''kind'', PyStr ''order'')] (0, [])) = None"
    "attrs_after (publish_message demo_env ''arn:aws:sns:orders.fifo'' ''hello''
        [(''kind'', PyStr ''order'')] True None (Some ''dedup-7'') (0, []))
       = [(''kind'', PyStr ''order'')]"
    "validate_message_attributes demo_env [(''kind'', PyStr ''order'')] = Inr True"
    "bind_attributes demo_env [(''kind'', PyStr ''order'')]
       = [(''kind'', ''String'', PyStr ''order'')]"
    by (simp_all add: publish_message_def publish_message_fifo_queue_def publish_fifo_try_def
        offload_if_large_def demo_env_def validate_message_attributes_spec_def is_large_message_spec_def attrs_after_def)
  show ?thesis
    using publish_fifo_passes_ids_unchecked [of demo_env "''arn:aws:sns:orders.fifo''" "''hello''"
        "[(''kind'', PyStr ''order'')]" None "Some ''dedup-7''" 0]
    by (simp add: ev)
qed

section \<open>Transport failures\<close>

text \<open>
  C4 as stated fails on the publish paths: a ClientError raised by the transport's
  publish is logged, and the publish call then returns \<^verbatim>\<open>None\<close> normally.
\<close>

theorem publish_swallows_client_error:
  "publish_message demo_env_throttled ''arn:aws:sns:orders'' ''hello'' [] False None None (0, [])
     = (Inr None, [],
        (0, [Validate [], Bind [],
             SnsPublish (Publish ''arn:aws:sns:orders'' ''hello'' []),
             LogException ''Couldn't publish message to topic arn:aws:sns:orders.'']))"
  by (simp add: publish_message_def publish_message_standard_queue_def publish_standard_try_def
      offload_if_large_def demo_env_throttled_def demo_env_def validate_message_attributes_spec_def is_large_message_spec_def)

text \<open>
  C4, as the code has it.  A ClientError that leaves the try body of the poll is logged
  with the queue URL and raised again, unchanged.  A ClientError that leaves the try
  body of a publish, standard or FIFO, is logged with the topic ARN, and the publish
  returns \<^verbatim>\<open>None\<close>.  In both cases the log record is the last call, and the state is
  otherwise the one the try body left.
\<close>

theorem client_error_logged_poll_raises_publish_returns_None:
  "(poll_try env url h vt wt man mx an st = (Inl (ClientError c), (w1, tr1)) \<longrightarrow>
      poll_message_from_queue env url h vt wt man mx an st =
        (Inl (ClientError c),
         (w1, tr1 @ [LogException
            (''Couldn't poll message from queue with URL='' @ url @ ''!'')])))
   \<and> (publish_standard_try env topic message attributes st' = (Inl (ClientError c'), a2, (w2, tr2))
      \<longrightarrow> publish_message env topic message attributes False g d st' =
        (Inr None, a2,
         (w2, tr2 @ [LogException (''Couldn't publish message to topic '' @ topic @ ''.'')])))
   \<and> (publish_fifo_try env topic message g d attributes st' = (Inl (ClientError c''), a3, (w3, tr3))
      \<longrightarrow> publish_message env topic message attributes True g d st' =
        (Inr None, a3,
         (w3, tr3 @ [LogException
            (''Couldn't publish message to FIFO topic '' @ topic @ ''.'')])))"
  by (simp add: poll_message_from_queue_def publish_message_def
      publish_message_standard_queue_def publish_message_fifo_queue_def)

theorem client_error_logged_poll_raises_publish_returns_None_witness:
  "poll_try demo_env_throttled ''q-url'' demo_handler 15 20 [''All''] 10 [''All''] (0, [])
     = (Inl (ClientError ''Throttling''),
        (0, [SqsReceive (receive_request_of ''q-url'' 15 20 [''All''] 10 [''All''])]))
   \<and> poll_message_from_queue demo_env_throttled ''q-url'' demo_handler 15 20 [''All''] 10
        [''All''] (0, [])
     = (Inl (ClientError ''Throttling''),
        (0, [SqsReceive (receive_request_of ''q-url'' 15 20 [''All''] 10 [''All'']),
             LogException ''Couldn't poll message from queue with URL=q-url!'']))
   \<and> publish_standard_try demo_env_throttled ''arn:aws:sns:orders.fifo'' ''hello'' [] (0, [])
     = (Inl (ClientError ''Throttling''), [],
        (0, [Validate [], Bind [],
             SnsPublish (Publish ''arn:aws:sns:orders.fifo'' ''hello'' [])]))
   \<and> fst (publish_message demo_env_throttled ''arn:aws:sns:orders.fifo'' ''hello'' [] False
        (Some ''g1'') (Some ''d1'') (0, []))
     = Inr None
   \<and> publish_fifo_try demo_env_throttled ''arn:aws:sns:orders.fifo'' ''hello''
        (Some ''g1'') (Some ''d1'') [] (0, [])
     = (Inl (ClientError ''Throttling''), [],
        (0, [Validate [], Bind [],
             SnsPublish (PublishFifo ''arn:aws:sns:orders.fifo'' ''hello''
               (Some ''g1'') (Some ''d1'') [])]))
   \<and> publish_message demo_env_throttled ''arn:aws:sns:orders.fifo'' ''hello'' [] True
        (Some ''g1'') (Some ''d1'') (0, [])
     = (Inr None, [],
        (0, [Validate [], Bind [],
             SnsPublish (PublishFifo ''arn:aws:sns:orders.fifo'' ''hello''
               (Some ''g1'') (Some ''d1'') []),
             LogException ''Couldn't publish message to FIFO topic arn:aws:sns:orders.fifo.'']))"
proof -
  have p: "poll_try demo_env_throttled ''q-url'' demo_handler 15 20 [''All''] 10 [''All''] (0, [])
     = (Inl (ClientError ''Throttling''),
        (0, [SqsReceive (receive_request_of ''q-url'' 15 20 [''All''] 10 [''All''])]))"
    by (simp add: poll_try_def demo_env_throttled_def demo_env_def validate_message_attributes_spec_def receive_request_of_def)
  have s: "publish_standard_try demo_env_throttled ''arn:aws:sns:orders.fifo'' ''hello'' [] (0, [])
     = (Inl (ClientError ''Throttling''), [],
        (0, [Validate [], Bind [],
             SnsPublish (Publish ''arn:aws:sns:orders.fifo'' ''hello'' [])]))"
    by (simp add: publish_standard_try_def offload_if_large_def demo_env_throttled_def
        demo_env_def validate_message_attributes_spec_def is_large_message_spec_def)
  have f: "publish_fifo_try demo_env_throttled ''arn:aws:sns:orders.fifo'' ''hello''
        (Some ''g1'') (Some ''d1'') [] (0, [])
     = (Inl (ClientError ''Throttling''), [],
        (0, [Validate [], Bind [],
             SnsPublish (PublishFifo ''arn:aws:sns:orders.fifo'' ''hello''
               (Some ''g1'') (Some ''d1'') [])]))"
    by (simp add: publish_fifo_try_def offload_if_large_def demo_env_throttled_def demo_env_def validate_message_attributes_spec_def
        is_large_message_spec_def)
  show ?thesis
    using p s f
      client_error_logged_poll_raises_publish_returns_None
        [where env = demo_env_throttled and url = "''q-url''" and h = demo_handler
           and vt = 15 and wt = 20 and man = "[''All'']" and mx = 10 and an = "[''All'']"
           and st = "(0, [])" and c = "''Throttling''" and ?w1.0 = 0
           and ?tr1.0 = "[SqsReceive (receive_request_of ''q-url'' 15 20 [''All''] 10 [''All''])]"
           and topic = "''arn:aws:sns:orders.fifo''" and message = "''hello''"
           and attributes = "[]" and st' = "(0, [])" and g = "Some ''g1''" and d = "Some ''d1''"
           and c' = "''Throttling''" and ?a2.0 = "[]" and ?w2.0 = 0
           and ?tr2.0 = "[Validate [], Bind [],
                SnsPublish (Publish ''arn:aws:sns:orders.fifo'' ''hello'' [])]"
           and c'' = "''Throttling''" and ?a3.0 = "[]" and ?w3.0 = 0
           and ?tr3.0 = "[Validate [], Bind [],
                SnsPublish (PublishFifo ''arn:aws:sns:orders.fifo'' ''hello''
                  (Some ''g1'') (Some ''d1'') [])]"]
    by simp
qed

end
